theory Spec2Isabelle
  imports Complex_Main "HOL-Library.AList"
begin

section \<open>Python values, exceptions and string primitives\<close>

text \<open>
  The sources are \<^verbatim>\<open>src/function_app.py\<close> and \<^verbatim>\<open>src/shared/names.py\<close>. Their data are
  JSON-like Python values: a dictionary is an association list (insertion order kept, as in
  Python), looked up with \<open>map_of\<close> and updated with \<open>AList.update\<close>.

  A finite float carries its exact real value; the rounding of \<open>float(int)\<close> to 53 bits
  (which keeps sign and zero) is not represented. Characters are the code points 0..255.
\<close>

datatype pyfloat = Fin real | PosInf | NegInf | NaN

datatype pyval =
    PNone
  | PBool bool
  | PInt int
  | PFloat pyfloat
  | PStr string
  | PList "pyval list"
  | PDict "(string \<times> pyval) list"

text \<open>An exception: its class name and \<open>str(e)\<close>.\<close>

datatype pyexn = PyExn string string

fun exn_str :: "pyexn \<Rightarrow> string" where
  "exn_str (PyExn cls msg) = msg"

definition ebind :: "pyexn + 'a \<Rightarrow> ('a \<Rightarrow> pyexn + 'b) \<Rightarrow> pyexn + 'b" where
  "ebind m f = (case m of Inl e \<Rightarrow> Inl e | Inr x \<Rightarrow> f x)"

fun type_name :: "pyval \<Rightarrow> string" where
  "type_name PNone = ''NoneType''"
| "type_name (PBool b) = ''bool''"
| "type_name (PInt i) = ''int''"
| "type_name (PFloat f) = ''float''"
| "type_name (PStr s) = ''str''"
| "type_name (PList xs) = ''list''"
| "type_name (PDict kvs) = ''dict''"

definition no_attribute :: "pyval \<Rightarrow> string \<Rightarrow> pyexn" where
  "no_attribute v attr =
     PyExn ''AttributeError''
       ([CHR 0x27] @ type_name v @ [CHR 0x27] @ '' object has no attribute '' @
        [CHR 0x27] @ attr @ [CHR 0x27])"

text \<open>\<open>bool(v)\<close>, as used by \<open>if not v\<close>.\<close>

fun truthy :: "pyval \<Rightarrow> bool" where
  "truthy PNone = False"
| "truthy (PBool b) = b"
| "truthy (PInt i) = (i \<noteq> 0)"
| "truthy (PFloat f) = (f \<noteq> Fin 0)"
| "truthy (PStr s) = (s \<noteq> [])"
| "truthy (PList xs) = (xs \<noteq> [])"
| "truthy (PDict kvs) = (kvs \<noteq> [])"

text \<open>\<open>d.get(k, default)\<close>; only a dictionary has the method.\<close>

definition py_get :: "pyval \<Rightarrow> string \<Rightarrow> pyval \<Rightarrow> pyexn + pyval" where
  "py_get d k dflt =
     (case d of
        PDict kvs \<Rightarrow> Inr (case map_of kvs k of None \<Rightarrow> dflt | Some v \<Rightarrow> v)
      | _ \<Rightarrow> Inl (no_attribute d ''get''))"

text \<open>\<open>xs[i]\<close> for a non-negative literal index.\<close>

definition index :: "'a list \<Rightarrow> nat \<Rightarrow> pyexn + 'a" where
  "index xs i =
     (if i < length xs then Inr (xs ! i)
      else Inl (PyExn ''IndexError'' ''list index out of range''))"

subsection \<open>Characters and \<open>str\<close> methods\<close>

definition py_isspace :: "char \<Rightarrow> bool" where
  "py_isspace c =
     (c \<in> set [CHR 0x09, CHR 0x0A, CHR 0x0B, CHR 0x0C, CHR 0x0D, CHR 0x1C, CHR 0x1D,
                CHR 0x1E, CHR 0x1F, CHR '' '', CHR 0x85, CHR 0xA0])"

definition py_isupper :: "char \<Rightarrow> bool" where
  "py_isupper c =
     (let n = (of_char c :: nat)
      in (65 \<le> n \<and> n \<le> 90) \<or> (192 \<le> n \<and> n \<le> 214) \<or> (216 \<le> n \<and> n \<le> 222))"

text \<open>An upper-case letter and its lower-case form differ in the bit of value 32.\<close>

fun set_bit5 :: "char \<Rightarrow> char" where
  "set_bit5 (Char b0 b1 b2 b3 b4 b5 b6 b7) = Char b0 b1 b2 b3 b4 True b6 b7"

definition lower_char :: "char \<Rightarrow> char" where
  "lower_char c = (if py_isupper c then set_bit5 c else c)"

definition py_lower :: "string \<Rightarrow> string" where
  "py_lower s = map lower_char s"

definition startswith :: "string \<Rightarrow> string \<Rightarrow> bool" where
  "startswith s p = (take (length p) s = p)"

definition py_strip :: "string \<Rightarrow> string" where
  "py_strip s = rev (dropWhile py_isspace (rev (dropWhile py_isspace s)))"

text \<open>\<open>s.split(c)\<close> for a one-character separator: never the empty list.\<close>

fun split_on :: "char \<Rightarrow> string \<Rightarrow> string list" where
  "split_on c [] = [[]]"
| "split_on c (x # xs) =
     (if x = c then [] # split_on c xs
      else (case split_on c xs of [] \<Rightarrow> [[x]] | w # ws \<Rightarrow> (x # w) # ws))"

text \<open>\<open>s.split(c, 1)\<close>: at most one cut, at the first separator.\<close>

definition split_once :: "char \<Rightarrow> string \<Rightarrow> string list" where
  "split_once c s =
     (if c \<in> set s then [takeWhile (\<lambda>x. x \<noteq> c) s, tl (dropWhile (\<lambda>x. x \<noteq> c) s)] else [s])"

text \<open>\<open>s.split()\<close>: the maximal runs of non-whitespace characters.\<close>

fun py_split_ws :: "string \<Rightarrow> string list" where
  "py_split_ws [] = []"
| "py_split_ws (x # xs) =
     (if py_isspace x then py_split_ws xs
      else if xs = [] \<or> py_isspace (hd xs) then [x] # py_split_ws xs
      else (case py_split_ws xs of [] \<Rightarrow> [[x]] | w # ws \<Rightarrow> (x # w) # ws))"

text \<open>\<open>s.replace(a, b)\<close> for one-character arguments.\<close>

definition py_replace :: "char \<Rightarrow> char \<Rightarrow> string \<Rightarrow> string" where
  "py_replace a b s = map (\<lambda>c. if c = a then b else c) s"

text \<open>\<open>sep.join(xs)\<close>.\<close>

fun join :: "string \<Rightarrow> string list \<Rightarrow> string" where
  "join sep [] = []"
| "join sep [x] = x"
| "join sep (x # y # ys) = x @ sep @ join sep (y # ys)"

section \<open>\<open>names.py\<close>: the final-name extractor\<close>

text \<open>
  \<^verbatim>\<open>
  for line in evaluation_lines:
      if line.lower().startswith("final corrected name:"):
          return line.split(":", 1)[1].strip()
  return None
  \<close>
\<close>

fun scan_final_name :: "string list \<Rightarrow> pyexn + string option" where
  "scan_final_name [] = Inr None"
| "scan_final_name (line # rest) =
     (if startswith (py_lower line) ''final corrected name:''
      then ebind (index (split_once CHR '':'' line) 1) (\<lambda>r. Inr (Some (py_strip r)))
      else scan_final_name rest)"

text \<open>The \<open>try\<close> block around the scan turns every exception into \<open>None\<close>.\<close>

definition extract_final_name :: "pyval \<Rightarrow> string option" where
  "extract_final_name evaluation_result =
     (case (case evaluation_result of
              PStr s \<Rightarrow> scan_final_name (split_on CHR ''\<newline>'' s)
            | v \<Rightarrow> Inl (no_attribute v ''split'')) of
        Inl e \<Rightarrow> None
      | Inr r \<Rightarrow> r)"

section \<open>\<open>function_app.py\<close>: brand extraction\<close>

text \<open>
  \<^verbatim>\<open>
  words = item_name.split()
  if not words: return "Generic"
  if '/' in item_name: return item_name.split('/')[0].strip()
  if "'" in item_name or "'" in item_name:
      possessive_split = item_name.replace("'", "'").split("'")
      if len(possessive_split) > 1: return possessive_split[0].strip()
  if words[0][0].isupper(): return words[0]
  return "Generic"
  \<close>
  Any exception (a name that is not a string has no \<open>split\<close>) gives \<open>"Generic"\<close>.
\<close>

definition brand_of_str :: "string \<Rightarrow> pyexn + string" where
  "brand_of_str item_name =
     (let words = py_split_ws item_name in
      if words = [] then Inr ''Generic''
      else if CHR ''/'' \<in> set item_name
        then ebind (index (split_on CHR ''/'' item_name) 0) (\<lambda>b. Inr (py_strip b))
      else
        (let possessive_split = split_on (CHR 0x27) (py_replace (CHR 0x27) (CHR 0x27) item_name)
         in if (CHR 0x27 \<in> set item_name \<or> CHR 0x27 \<in> set item_name)
               \<and> length possessive_split > 1
            then ebind (index possessive_split 0) (\<lambda>b. Inr (py_strip b))
            else ebind (index words 0) (\<lambda>w. ebind (index w 0) (\<lambda>c.
                   if py_isupper c then Inr w else Inr ''Generic''))))"

definition extract_brand :: "pyval \<Rightarrow> string" where
  "extract_brand item_name =
     (case (case item_name of
              PStr s \<Rightarrow> brand_of_str s
            | v \<Rightarrow> Inl (no_attribute v ''split'')) of
        Inl e \<Rightarrow> ''Generic''
      | Inr b \<Rightarrow> b)"

section \<open>Interpreter built-ins\<close>

text \<open>
  Three built-ins are taken as parameters, since their full definition lies outside the
  program: the parser behind \<open>float(str)\<close> (\<open>None\<close> when the text is no float literal), the
  text \<open>str(v)\<close> of floats, lists and dictionaries, and \<open>repr\<close> of a string.
\<close>

record builtins =
  parse_float :: "string \<Rightarrow> pyfloat option"
  str_other :: "pyval \<Rightarrow> string"
  repr_str :: "string \<Rightarrow> string"

fun dec_nat :: "nat \<Rightarrow> string" where
  "dec_nat n =
     (if n < 10 then [''0123456789'' ! n]
      else dec_nat (n div 10) @ [''0123456789'' ! (n mod 10)])"

declare dec_nat.simps [simp del]

definition dec_int :: "int \<Rightarrow> string" where
  "dec_int i = (if i < 0 then ''-'' @ dec_nat (nat (- i)) else dec_nat (nat i))"

text \<open>\<open>str(v)\<close>, as an f-string renders a value.\<close>

fun py_str :: "builtins \<Rightarrow> pyval \<Rightarrow> string" where
  "py_str B (PStr s) = s"
| "py_str B PNone = ''None''"
| "py_str B (PBool b) = (if b then ''True'' else ''False'')"
| "py_str B (PInt i) = dec_int i"
| "py_str B v = str_other B v"

text \<open>
  \<open>float(v)\<close>. An integer whose nearest double would be \<open>2 ^ 1024\<close> or more raises
  \<open>OverflowError\<close>; \<open>bool\<close> is a subclass of \<open>int\<close>.
\<close>

definition float_int_limit :: int where
  "float_int_limit = 2 ^ 1024 - 2 ^ 970"

definition float_type_error :: "pyval \<Rightarrow> pyexn" where
  "float_type_error v =
     PyExn ''TypeError''
       (''float() argument must be a string or a real number, not '' @
        [CHR 0x27] @ type_name v @ [CHR 0x27])"

fun py_float :: "builtins \<Rightarrow> pyval \<Rightarrow> pyexn + pyfloat" where
  "py_float B (PFloat f) = Inr f"
| "py_float B (PInt i) =
     (if float_int_limit \<le> \<bar>i\<bar>
      then Inl (PyExn ''OverflowError'' ''int too large to convert to float'')
      else Inr (Fin (of_int i)))"
| "py_float B (PBool b) = Inr (Fin (if b then 1 else 0))"
| "py_float B (PStr s) =
     (case parse_float B s of
        None \<Rightarrow> Inl (PyExn ''ValueError'' (''could not convert string to float: '' @ repr_str B s))
      | Some f \<Rightarrow> Inr f)"
| "py_float B v = Inl (float_type_error v)"

text \<open>\<open>len(v)\<close>.\<close>

fun py_len :: "pyval \<Rightarrow> pyexn + nat" where
  "py_len (PList xs) = Inr (length xs)"
| "py_len (PStr s) = Inr (length s)"
| "py_len (PDict kvs) = Inr (length kvs)"
| "py_len v =
     Inl (PyExn ''TypeError''
            (''object of type '' @ [CHR 0x27] @ type_name v @ [CHR 0x27] @ '' has no len()''))"

text \<open>\<open>d[k]\<close> on a dictionary.\<close>

definition subscript :: "(string \<times> pyval) list \<Rightarrow> string \<Rightarrow> pyexn + pyval" where
  "subscript d k =
     (case map_of d k of
        None \<Rightarrow> Inl (PyExn ''KeyError'' ([CHR 0x27] @ k @ [CHR 0x27]))
      | Some v \<Rightarrow> Inr v)"

text \<open>\<open>v.lower()\<close> on any value.\<close>

definition lower_of :: "pyval \<Rightarrow> pyexn + string" where
  "lower_of v = (case v of PStr s \<Rightarrow> Inr (py_lower s) | _ \<Rightarrow> Inl (no_attribute v ''lower''))"

text \<open>An optional string as a Python value.\<close>

definition opt_val :: "string option \<Rightarrow> pyval" where
  "opt_val n = (case n of None \<Rightarrow> PNone | Some s \<Rightarrow> PStr s)"

section \<open>\<open>names.py\<close>: constants\<close>

definition terms_to_remove :: "string list" where
  "terms_to_remove =
    [''plastic'', ''plst'', ''refrigerator'', ''tff'', ''shelf-stable'', ''cnt'', ''box'', ''bx'',
     ''bag'', ''bg'', ''case'', ''cs'', ''each'', ''ea'', ''bags'', ''1 piece'', ''homemade'', ''shelf'',
     ''count'', ''vacuum'', ''refrigerated'', ''premium'', ''packet'', ''pack'', ''pkg'', ''container'',
     ''bottle'', ''jar'', ''tin'', ''tub'', ''tube'', ''can'', ''pouch'', ''single'', ''dozen'', ''pair'',
     ''bulk'', ''multiple'', ''variety pack'', ''frozen'', ''chilled'', ''dry'', ''wet'',
     ''cured'', ''smoked'', ''dried'', ''standard'', ''natural'', ''organic'', ''artisan'', ''gourmet'',
     ''choice'', ''select'', ''grade A'', ''top quality'', ''chopped'', ''crushed'', ''diced'', ''minced'',
     ''ready to eat'', ''local'']"

definition category_specific_rules :: "(string \<times> string list) list" where
  "category_specific_rules =
    [(''paper goods and Disposables'',
        [''Include size and material'', ''Remove brand names unless essential'']),
     (''BAKERY'', [''Specify bread type first'', ''Include shape and size if relevant'']),
     (''produce'', [''Include 'Fresh' for non-processed items'', ''Specify variety and form'']),
     (''meat'', [''Include cut and preparation method'', ''Specify key characteristics'']),
     (''seafood'',
        [''Include type and preparation method'', ''Specify fresh or frozen if relevant'']),
     (''dairy'', [''Specify product type first'', ''Include key descriptors'']),
     (''Dry Grocery'', [''Specify item type first'', ''Include key characteristics'']),
     (''beverages'',
        [''Specify type of beverage first'', ''Include key descriptors like brand name''])]"

text \<open>
  \<open>category_specific_rules.get(category, [])\<close>: a dictionary lookup by the key as it is
  given. A list or dictionary is unhashable; any other non-string key is simply absent.
\<close>

definition unhashable :: "pyval \<Rightarrow> pyexn" where
  "unhashable v =
     PyExn ''TypeError'' (''unhashable type: '' @ [CHR 0x27] @ type_name v @ [CHR 0x27])"

definition category_rules_of :: "pyval \<Rightarrow> pyexn + string list" where
  "category_rules_of category =
     (case category of
        PStr c \<Rightarrow> Inr (case map_of category_specific_rules c of None \<Rightarrow> [] | Some rs \<Rightarrow> rs)
      | PList xs \<Rightarrow> Inl (unhashable category)
      | PDict kvs \<Rightarrow> Inl (unhashable category)
      | _ \<Rightarrow> Inr [])"

definition category_rules_str :: "string list \<Rightarrow> string" where
  "category_rules_str category_rules =
     join ''\<newline>'' (map (\<lambda>rule. ''- '' @ rule) category_rules)"

section \<open>\<open>names.py\<close>: in-context examples\<close>

text \<open>
  \<^verbatim>\<open>
  [ex for ex in training_data
   if isinstance(ex, dict) and ex.get('category', '').lower() == category.lower()]
  \<close>
  The condition is evaluated per element, left to right, so an exception of \<open>lower\<close> needs a
  dictionary among the elements.
\<close>

fun category_examples :: "pyval \<Rightarrow> pyval list \<Rightarrow> pyexn + pyval list" where
  "category_examples category [] = Inr []"
| "category_examples category (ex # rest) =
     (case ex of
        PDict kvs \<Rightarrow>
          ebind (py_get ex ''category'' (PStr [])) (\<lambda>c.
          ebind (lower_of c) (\<lambda>lc.
          ebind (lower_of category) (\<lambda>lcat.
          ebind (category_examples category rest) (\<lambda>r.
            Inr (if lc = lcat then ex # r else r)))))
      | _ \<Rightarrow> category_examples category rest)"

text \<open>
  \<open>f"Input: {example.get('prompt', '')}\nOutput: {example.get('completion', '')}"\<close>; every
  selected example is a dictionary.
\<close>

definition render_example :: "builtins \<Rightarrow> pyval \<Rightarrow> pyexn + string" where
  "render_example B example =
     ebind (py_get example ''prompt'' (PStr [])) (\<lambda>p.
     ebind (py_get example ''completion'' (PStr [])) (\<lambda>c.
       Inr (''Input: '' @ py_str B p @ ''\<newline>Output: '' @ py_str B c)))"

fun render_examples :: "builtins \<Rightarrow> pyval list \<Rightarrow> pyexn + string list" where
  "render_examples B [] = Inr []"
| "render_examples B (ex # rest) =
     ebind (render_example B ex) (\<lambda>t. ebind (render_examples B rest) (\<lambda>ts. Inr (t # ts)))"

definition training_examples :: "builtins \<Rightarrow> pyval list \<Rightarrow> pyexn + string" where
  "training_examples B exs = ebind (render_examples B exs) (\<lambda>ts. Inr (join ''\<newline>'' ts))"

section \<open>\<open>names.py\<close>: the language-model calls\<close>

text \<open>
  A chat-completion request, and the client as an oracle: the answer to the \<open>n\<close>-th request
  of a run is either an exception or the content of the first choice (\<open>None\<close> for a null
  content). The requests issued so far are the state.
\<close>

record request =
  model :: string
  system_msg :: string
  user_msg :: string
  temperature :: real
  max_tokens :: nat

type_synonym client = "nat \<Rightarrow> request \<Rightarrow> pyexn + string option"

definition chat_create ::
  "client \<Rightarrow> request list \<Rightarrow> request \<Rightarrow> (pyexn + string option) \<times> request list" where
  "chat_create cl sent rq = (cl (length sent) rq, sent @ [rq])"

text \<open>\<open>response.choices[0].message.content.strip()\<close>.\<close>

definition strip_content :: "string option \<Rightarrow> pyexn + string" where
  "strip_content content =
     (case content of
        None \<Rightarrow> Inl (no_attribute PNone ''strip'')
      | Some s \<Rightarrow> Inr (py_strip s))"

definition standardize_prompt :: "builtins \<Rightarrow> string \<Rightarrow> string \<Rightarrow> pyval \<Rightarrow> string" where
  \<open>standardize_prompt B examples rules_str item_description =
     join ''\<newline>''
      [''As a restaurant inventory manager, standardize this inventory item name using these guidelines:'',
       examples,
       rules_str,
       ''Item Name: '' @ py_str B item_description,
       '''',
       ''Rules for Food Items:'',
       ''1. Format: Ingredient, Description'',
       ''2. Ingredient should come first, followed by a comma and then the description'',
       ''3. Use 2-4 words total'',
       ''4. Capitalize only the first letter of the ingredient'',
       ''5. Remove all packaging information from the name'',
       '''',
       ''Rules for Non-Food Items:'',
       ''1. Include size and essential details in the name'',
       ''2. Use 2-4 words total'',
       ''3. Capitalize the first letter of each word'',
       '''',
       ''General Rules:'',
       ''4. Remove brand names unless essential'',
       ''5. Use well-known culinary abbreviations'',
       ''6. Remove terms like "refrigerator," "plastic," "shelf-stable"'',
       ''7. Remove place names'',
       ''8. For produce, include "Fresh" only if distinguishing'',
       ''9. For meat and seafood, include cut and preparation'',
       ''10. For dairy, specify type'',
       ''11. For spices, include form'',
       ''12. Remove terms: '' @ join '', '' terms_to_remove,
       ''13. Keep essential descriptors'',
       '''',
       ''Task: Standardize this item description: '' @ py_str B item_description]\<close>

definition standardize_request :: "string \<Rightarrow> request" where
  "standardize_request prompt =
     \<lparr>model = ''gpt-4o'',
      system_msg = ''You are an AI assistant that standardizes inventory item names for a restaurant.'',
      user_msg = prompt,
      temperature = 1 / 10,
      max_tokens = 15000\<rparr>"

text \<open>
  The example selection and the rule lookup of \<open>standardize_item_name\<close>
  (\<open>build_standardize_prompt\<close>) lie before its \<open>try\<close>: their exceptions leave the function. A failure of the request, or of \<open>strip\<close> on
  the answer, returns the item description as it was given.
\<close>

definition build_standardize_prompt ::
  "builtins \<Rightarrow> pyval \<Rightarrow> pyval list \<Rightarrow> pyval \<Rightarrow> pyexn + string" where
  "build_standardize_prompt B item_description training_data category =
     ebind (category_examples category training_data) (\<lambda>exs.
     ebind (training_examples B exs) (\<lambda>examples.
     ebind (category_rules_of category) (\<lambda>category_rules.
       Inr (standardize_prompt B examples (category_rules_str category_rules)
              item_description))))"

definition standardize_item_name ::
  "client \<Rightarrow> builtins \<Rightarrow> request list \<Rightarrow> pyval \<Rightarrow> pyval list \<Rightarrow> pyval
     \<Rightarrow> (pyexn + pyval) \<times> request list" where
  "standardize_item_name cl B sent item_description training_data category =
     (case build_standardize_prompt B item_description training_data category of
        Inl e \<Rightarrow> (Inl e, sent)
      | Inr prompt \<Rightarrow>
          (case chat_create cl sent (standardize_request prompt) of
             (response, sent') \<Rightarrow>
               (case ebind response strip_content of
                  Inl e \<Rightarrow> (Inr item_description, sent')
                | Inr text \<Rightarrow> (Inr (PStr text), sent'))))"

definition evaluate_prompt ::
  "builtins \<Rightarrow> pyval \<Rightarrow> pyval \<Rightarrow> string \<Rightarrow> string \<Rightarrow> string" where
  \<open>evaluate_prompt B standardized_name original_name rules_str examples =
     join ''\<newline>''
      [''Evaluate and correct the following standardized inventory item name:'',
       ''Standardized name: '' @ py_str B standardized_name,
       ''Original name: '' @ py_str B original_name,
       ''Category rules:'',
       rules_str,
       '''',
       ''Training examples:'',
       examples,
       '''',
       ''Terms to remove: '' @ join '', '' terms_to_remove,
       '''',
       ''Instructions:'',
       ''- Put core item first'',
       ''- Focus on fundamental identity'',
       ''- Use "Core Item, Descriptors" format'',
       ''- Remove unnecessary words'',
       ''- Include brand names for beverages if well-known'',
       ''- Keep standard measurements when relevant'',
       '''',
       ''Final corrected name: [Your corrected name]'',
       ''Explanation: [Brief explanation]'']\<close>

definition evaluate_request :: "string \<Rightarrow> request" where
  "evaluate_request prompt =
     \<lparr>model = ''gpt-4o'',
      system_msg = ''You are an AI assistant that evaluates and corrects standardized inventory item names.'',
      user_msg = prompt,
      temperature = 1 / 10,
      max_tokens = 15000\<rparr>"

text \<open>
  The whole body of \<open>evaluate_and_correct_item_name\<close> is inside its \<open>try\<close>: the building of
  the prompt (\<open>build_evaluate_prompt\<close>), the request and the \<open>strip\<close>; the handler returns
  \<open>f"Error: {str(e)}"\<close>. The examples are cut to the first five after the selection.
\<close>

definition build_evaluate_prompt ::
  "builtins \<Rightarrow> pyval \<Rightarrow> pyval \<Rightarrow> pyval \<Rightarrow> pyval list \<Rightarrow> pyexn + string" where
  "build_evaluate_prompt B standardized_name original_name category training_data =
     ebind (category_examples category training_data) (\<lambda>exs.
     ebind (training_examples B (take 5 exs)) (\<lambda>examples.
     ebind (category_rules_of category) (\<lambda>category_rules.
       Inr (evaluate_prompt B standardized_name original_name
              (category_rules_str category_rules) examples))))"

definition evaluate_and_correct_item_name ::
  "client \<Rightarrow> builtins \<Rightarrow> request list \<Rightarrow> pyval \<Rightarrow> pyval \<Rightarrow> pyval \<Rightarrow> pyval list
     \<Rightarrow> string \<times> request list" where
  "evaluate_and_correct_item_name cl B sent standardized_name original_name category training_data =
     (case build_evaluate_prompt B standardized_name original_name category training_data of
        Inl e \<Rightarrow> (''Error: '' @ exn_str e, sent)
      | Inr prompt \<Rightarrow>
          (case chat_create cl sent (evaluate_request prompt) of
             (response, sent') \<Rightarrow>
               (case ebind response strip_content of
                  Inl e \<Rightarrow> (''Error: '' @ exn_str e, sent')
                | Inr text \<Rightarrow> (text, sent'))))"

section \<open>\<open>function_app.py\<close>: processing one item\<close>

text \<open>
  The environment of the activity: the result of constructing the client, the examples that
  \<open>load_jsonl_data\<close> returns (it never raises), and the built-ins.
\<close>

record env =
  new_client :: "pyexn + client"
  training :: "pyval list"
  interp :: builtins

text \<open>
  The dictionary literal of \<open>process_single_item\<close>, its entries evaluated in order.
  \<open>item.get(k, d)\<close> gives \<open>d\<close> only when the key is absent; \<open>float\<close> is applied to whatever
  is there.
\<close>

definition get_float :: "builtins \<Rightarrow> pyval \<Rightarrow> string \<Rightarrow> pyexn + pyval" where
  "get_float B item k = ebind (py_get item k (PInt 0)) (\<lambda>v. ebind (py_float B v) (\<lambda>f. Inr (PFloat f)))"

definition make_processed_item ::
  "builtins \<Rightarrow> (string \<times> pyval) list \<Rightarrow> pyexn + (string \<times> pyval) list" where
  "make_processed_item B itemdata =
     ebind (subscript itemdata ''item'') (\<lambda>item.
     ebind (subscript itemdata ''userId'') (\<lambda>user_id.
     ebind (subscript itemdata ''supplier'') (\<lambda>supplier.
     ebind (subscript itemdata ''invoice_id'') (\<lambda>invoice_id.
     ebind (subscript itemdata ''invoice_number'') (\<lambda>invoice_number.
     ebind (py_get item ''Item Name'' (PStr [])) (\<lambda>itemName.
     ebind (py_get item ''Item Number'' (PStr [])) (\<lambda>itemNumber.
     ebind (get_float B item ''Quantity In a Case'') (\<lambda>quantityInCase.
     ebind (get_float B item ''Measurement Of Each Item'') (\<lambda>measurementOfEachItem.
     ebind (py_get item ''Measured In'' (PStr [])) (\<lambda>measuredIn.
     ebind (get_float B item ''Total Units Ordered'') (\<lambda>totalUnitsOrdered.
     ebind (get_float B item ''Case Price'') (\<lambda>casePrice.
     ebind (py_get item ''Catch Weight'' (PStr ''N/A'')) (\<lambda>catchWeight.
     ebind (py_get item ''Priced By'' (PStr [])) (\<lambda>pricedBy.
     ebind (py_get item ''Splitable'' (PStr ''NO'')) (\<lambda>splitable.
     ebind (py_get item ''Split Price'' (PStr ''N/A'')) (\<lambda>splitPrice.
     ebind (get_float B item ''Cost of a Unit'') (\<lambda>costOfUnit.
     ebind (py_get item ''Product Category'' (PStr [])) (\<lambda>productCategory.
       Inr [(''supplier'', supplier),
            (''invoice_id'', invoice_id),
            (''invoice_number'', invoice_number),
            (''userId'', user_id),
            (''itemName'', itemName),
            (''itemNumber'', itemNumber),
            (''quantityInCase'', quantityInCase),
            (''measurementOfEachItem'', measurementOfEachItem),
            (''measuredIn'', measuredIn),
            (''totalUnitsOrdered'', totalUnitsOrdered),
            (''casePrice'', casePrice),
            (''catchWeight'', catchWeight),
            (''pricedBy'', pricedBy),
            (''splitable'', splitable),
            (''splitPrice'', splitPrice),
            (''costOfUnit'', costOfUnit),
            (''productCategory'', productCategory)]))))))))))))))))))"

text \<open>
  The body of the \<open>try\<close> of \<open>process_single_item\<close>: the standardizer, then two rounds of
  evaluation and extraction. The second round receives \<open>final_name\<close>, the first extraction
  result, whatever it is. \<open>processed_item['itemName']\<close> and
  \<open>processed_item['productCategory']\<close> are read once here; the source reads them at each call
  from the dictionary, which does not change in between.
\<close>

definition process_body ::
  "env \<Rightarrow> (string \<times> pyval) list \<Rightarrow> (pyexn + (string \<times> pyval) list) \<times> request list" where
  "process_body E itemdata =
     (case new_client E of
        Inl e \<Rightarrow> (Inl e, [])
      | Inr cl \<Rightarrow>
     (case ebind (make_processed_item (interp E) itemdata) (\<lambda>processed_item.
           ebind (subscript processed_item ''itemName'') (\<lambda>item_name.
           ebind (subscript processed_item ''productCategory'') (\<lambda>category.
             Inr (processed_item, item_name, category)))) of
        Inl e \<Rightarrow> (Inl e, [])
      | Inr (processed_item, item_name, category) \<Rightarrow>
     (case standardize_item_name cl (interp E) [] item_name (training E) category of
        (Inl e, sent1) \<Rightarrow> (Inl e, sent1)
      | (Inr standardized_name, sent1) \<Rightarrow>
     (case evaluate_and_correct_item_name cl (interp E) sent1 standardized_name item_name
             category (training E) of
        (evaluation, sent2) \<Rightarrow>
     (let final_name = extract_final_name (PStr evaluation) in
     (case evaluate_and_correct_item_name cl (interp E) sent2 (opt_val final_name) item_name
             category (training E) of
        (evaluation2, sent3) \<Rightarrow>
     (let final_name2 = extract_final_name (PStr evaluation2) in
      if truthy (opt_val final_name2)
      then (Inr (AList.update ''final_corrected_name'' (opt_val final_name2) processed_item), sent3)
      else (Inr processed_item, sent3))))))))"

text \<open>
  \<open>process_single_item\<close>: any exception of the body is logged and the activity returns
  \<open>None\<close>. The second component is the list of requests sent to the language model.
\<close>

definition process_single_item ::
  "env \<Rightarrow> (string \<times> pyval) list \<Rightarrow> (string \<times> pyval) list option \<times> request list" where
  "process_single_item E itemdata =
     (case process_body E itemdata of
        (Inl e, sent) \<Rightarrow> (None, sent)
      | (Inr processed_item, sent) \<Rightarrow> (Some processed_item, sent))"

section \<open>\<open>function_app.py\<close>: validating a storage record\<close>

type_synonym dict = "(string \<times> pyval) list"

text \<open>\<open>d.get(k, dflt)\<close> on a value known to be a dictionary.\<close>

definition dict_get :: "dict \<Rightarrow> string \<Rightarrow> pyval \<Rightarrow> pyval" where
  "dict_get d k dflt = (case map_of d k of None \<Rightarrow> dflt | Some v \<Rightarrow> v)"

definition required_fields :: "string list" where
  "required_fields = [''Inventory Item Name'', ''Item Number'', ''Category'', ''Measured In'']"

definition numeric_fields :: "string list" where
  "numeric_fields =
     [''Quantity In a Case'', ''Measurement Of Each Item'', ''Total Units'', ''Case Price'',
      ''Cost of a Unit'']"

text \<open>\<open>isinstance(v, (int, float))\<close>; \<open>bool\<close> is a subclass of \<open>int\<close>.\<close>

fun is_int_or_float :: "pyval \<Rightarrow> bool" where
  "is_int_or_float (PInt i) = True"
| "is_int_or_float (PBool b) = True"
| "is_int_or_float (PFloat f) = True"
| "is_int_or_float v = False"

text \<open>\<open>f < 0\<close> on a float: every comparison with a NaN is false.\<close>

fun float_lt_zero :: "pyfloat \<Rightarrow> bool" where
  "float_lt_zero (Fin r) = (r < 0)"
| "float_lt_zero NegInf = True"
| "float_lt_zero PosInf = False"
| "float_lt_zero NaN = False"

text \<open>\<open>f >= 0\<close> on a float.\<close>

fun float_ge_zero :: "pyfloat \<Rightarrow> bool" where
  "float_ge_zero (Fin r) = (0 \<le> r)"
| "float_ge_zero NegInf = False"
| "float_ge_zero PosInf = True"
| "float_ge_zero NaN = False"

text \<open>\<open>v < 0\<close> on any value.\<close>

fun lt_zero :: "pyval \<Rightarrow> pyexn + bool" where
  "lt_zero (PInt i) = Inr (i < 0)"
| "lt_zero (PBool b) = Inr False"
| "lt_zero (PFloat f) = Inr (float_lt_zero f)"
| "lt_zero v =
     Inl (PyExn ''TypeError''
            ('''<' not supported between instances of '' @ [CHR 0x27] @ type_name v @ [CHR 0x27] @
             '' and '' @ [CHR 0x27] @ ''int'' @ [CHR 0x27]))"

text \<open>
  \<^verbatim>\<open>
  for field in required_fields:
      if not item.get(field): return False
  for field in numeric_fields:
      try:
          if not isinstance(item.get(field), (int, float)) or item.get(field) < 0:
              return False
      except Exception: return False
  return True
  \<close>
\<close>

fun check_required :: "dict \<Rightarrow> string list \<Rightarrow> bool" where
  "check_required item [] = True"
| "check_required item (field # rest) =
     (if \<not> truthy (dict_get item field PNone) then False else check_required item rest)"

fun check_numeric :: "dict \<Rightarrow> string list \<Rightarrow> bool" where
  "check_numeric item [] = True"
| "check_numeric item (field # rest) =
     (case (if \<not> is_int_or_float (dict_get item field PNone) then Inr True
            else lt_zero (dict_get item field PNone)) of
        Inl e \<Rightarrow> False
      | Inr invalid \<Rightarrow> if invalid then False else check_numeric item rest)"

definition validate_storage_item :: "dict \<Rightarrow> bool" where
  "validate_storage_item item =
     (if check_required item required_fields then check_numeric item numeric_fields else False)"

section \<open>\<open>function_app.py\<close>: storing a batch\<close>

text \<open>
  The names bound at module level of \<open>function_app.py\<close>: its imports, its assignments and its
  functions. A name used in a function body and bound neither there nor here (nor among the
  interpreter's built-in names) raises \<open>NameError\<close> when the statement runs.
\<close>

definition module_globals :: "string list" where
  "module_globals =
     [''func'', ''df'', ''CosmosClient'', ''logging'', ''os'', ''List'', ''Dict'', ''Any'',
      ''Optional'', ''datetime'', ''AsyncOpenAI'', ''json'', ''standardize_item_name'',
      ''evaluate_and_correct_item_name'', ''process_inventory_item'', ''load_jsonl_data'',
      ''extract_final_name'', ''myapp'', ''cosmos_client'', ''database_name'',
      ''source_container_name'', ''dest_container_name'', ''source_db'', ''source_container'',
      ''dest_db'', ''dest_container'', ''extract_items_from_invoice'', ''http_start'',
      ''process_items_orchestrator'', ''get_user_invoices_activity'', ''process_single_item'',
      ''store_items_activity'', ''extract_brand'', ''validate_storage_item'']"

definition global_name :: "string \<Rightarrow> pyexn + unit" where
  "global_name n =
     (if n \<in> set module_globals then Inr ()
      else Inl (PyExn ''NameError'' (''name '' @ [CHR 0x27] @ n @ [CHR 0x27] @ '' is not defined'')))"

text \<open>What the activity does to the outside: upsert attempts and sleeps, in order.\<close>

datatype event = Upsert nat | Sleep nat

text \<open>\<open>await asyncio.sleep(secs)\<close>: the name \<open>asyncio\<close> is looked up first.\<close>

definition asyncio_sleep :: "nat \<Rightarrow> pyexn + event" where
  "asyncio_sleep secs = ebind (global_name ''asyncio'') (\<lambda>u. Inr (Sleep secs))"

text \<open>
  \<^verbatim>\<open>
  for attempt in range(max_retries):
      try:
          response = dest_container.upsert_item(body=user_doc)
          break
      except Exception as e:
          if attempt == max_retries - 1: raise
          await asyncio.sleep(1)
  \<close>
  \<open>up attempt\<close> is the outcome of the upsert at that attempt: \<open>None\<close> when it succeeds.
\<close>

fun retry_loop ::
  "(nat \<Rightarrow> pyexn option) \<Rightarrow> nat \<Rightarrow> nat list \<Rightarrow> (pyexn + unit) \<times> event list" where
  "retry_loop up max_retries [] = (Inr (), [])"
| "retry_loop up max_retries (attempt # rest) =
     (case up attempt of
        None \<Rightarrow> (Inr (), [Upsert attempt])
      | Some e \<Rightarrow>
          if attempt = max_retries - 1 then (Inl e, [Upsert attempt])
          else (case asyncio_sleep 1 of
                  Inl e' \<Rightarrow> (Inl e', [Upsert attempt])
                | Inr ev \<Rightarrow>
                    (case retry_loop up max_retries rest of
                       (r, tr) \<Rightarrow> (r, Upsert attempt # ev # tr))))"

text \<open>
  The input of the activity and its environment: the built-ins, whether the query raises,
  the outcome of each upsert attempt, and the clock readings (at the creation of a new
  document, at the formatting of the item of each index, at the final update).
\<close>

record storedata =
  sd_items :: "pyval list"
  sd_user_id :: string
  sd_batch :: "pyval option"

record store_env =
  st_interp :: builtins
  query_exn :: "pyexn option"
  upsert_exn :: "nat \<Rightarrow> pyexn option"
  now_new :: string
  now_item :: "nat \<Rightarrow> string"
  now_meta :: string

text \<open>
  The destination container is a list of documents. The query selects by \<open>id\<close>; an upsert
  replaces the document with the same \<open>id\<close> and partition key \<open>userId\<close>, or adds one.
\<close>

definition query_items :: "dict list \<Rightarrow> string \<Rightarrow> dict list" where
  "query_items docs uid = filter (\<lambda>d. map_of d ''id'' = Some (PStr uid)) docs"

definition same_key :: "dict \<Rightarrow> dict \<Rightarrow> bool" where
  "same_key a b = (map_of a ''id'' = map_of b ''id'' \<and> map_of a ''userId'' = map_of b ''userId'')"

fun upsert_doc :: "dict \<Rightarrow> dict list \<Rightarrow> dict list" where
  "upsert_doc body [] = [body]"
| "upsert_doc body (d # ds) = (if same_key body d then body # ds else d # upsert_doc body ds)"

text \<open>
  The dictionary literal \<open>storage_item\<close>. Its entries are evaluated in order; only \<open>float\<close> can
  raise once \<open>item\<close> is known to have \<open>get\<close>, and the five conversions are kept in the order of
  the literal.
\<close>

definition format_storage_item :: "builtins \<Rightarrow> string \<Rightarrow> pyval \<Rightarrow> pyval \<Rightarrow> pyexn + dict" where
  "format_storage_item B now batch_num item =
     (case item of
        PDict kvs \<Rightarrow>
          ebind (py_float B (dict_get kvs ''quantityInCase'' (PInt 0))) (\<lambda>quantity.
          ebind (py_float B (dict_get kvs ''measurementOfEachItem'' (PInt 0))) (\<lambda>measurement.
          ebind (py_float B (dict_get kvs ''totalUnitsOrdered'' (PInt 0))) (\<lambda>total_units.
          ebind (py_float B (dict_get kvs ''casePrice'' (PInt 0))) (\<lambda>case_price.
          ebind (py_float B (dict_get kvs ''costOfUnit'' (PInt 0))) (\<lambda>cost.
            Inr [(''Supplier Name'', dict_get kvs ''supplier'' (PStr [])),
                 (''Inventory Item Name'',
                    dict_get kvs ''final_corrected_name'' (dict_get kvs ''itemName'' (PStr []))),
                 (''Brand'', PStr (extract_brand (dict_get kvs ''itemName'' (PStr [])))),
                 (''Inventory Unit of Measure'', dict_get kvs ''measuredIn'' (PStr [])),
                 (''Item Name'', dict_get kvs ''itemName'' (PStr [])),
                 (''Item Number'', dict_get kvs ''itemNumber'' (PStr [])),
                 (''Quantity In a Case'', PFloat quantity),
                 (''Measurement Of Each Item'', PFloat measurement),
                 (''Measured In'', dict_get kvs ''measuredIn'' (PStr [])),
                 (''Total Units'', PFloat total_units),
                 (''Case Price'', PFloat case_price),
                 (''Catch Weight'', dict_get kvs ''catchWeight'' (PStr ''N/A'')),
                 (''Priced By'', dict_get kvs ''pricedBy'' (PStr [])),
                 (''Splitable'', dict_get kvs ''splitable'' (PStr ''NO'')),
                 (''Split Price'', dict_get kvs ''splitPrice'' (PStr ''N/A'')),
                 (''Cost of a Unit'', PFloat cost),
                 (''Category'', dict_get kvs ''productCategory'' (PStr [])),
                 (''timestamp'', PStr now),
                 (''batchNumber'', batch_num)])))))
      | _ \<Rightarrow> Inl (no_attribute item ''get''))"

text \<open>\<open>user_doc['items'].append(storage_item)\<close>.\<close>

definition append_item :: "dict \<Rightarrow> dict \<Rightarrow> pyexn + dict" where
  "append_item user_doc storage_item =
     ebind (subscript user_doc ''items'') (\<lambda>v.
       case v of
         PList xs \<Rightarrow> Inr (AList.update ''items'' (PList (xs @ [PDict storage_item])) user_doc)
       | _ \<Rightarrow> Inl (no_attribute v ''append''))"

text \<open>
  The loop over \<open>enumerate(items)\<close>, with the state \<open>(user_doc, stored_count, errors)\<close>. An
  empty item is skipped with a warning; an item that fails validation, or whose formatting
  or appending raises, adds one error string.
\<close>

fun store_loop ::
  "builtins \<Rightarrow> (nat \<Rightarrow> string) \<Rightarrow> pyval \<Rightarrow> string \<Rightarrow> nat \<Rightarrow> pyval list
     \<Rightarrow> dict \<times> nat \<times> string list \<Rightarrow> dict \<times> nat \<times> string list" where
  "store_loop B now batch_num uid idx [] st = st"
| "store_loop B now batch_num uid idx (item # rest) (user_doc, stored_count, errors) =
     (if \<not> truthy item
      then store_loop B now batch_num uid (Suc idx) rest (user_doc, stored_count, errors)
      else
        (case ebind (format_storage_item B (now idx) batch_num item) (\<lambda>storage_item.
                if validate_storage_item storage_item
                then ebind (append_item user_doc storage_item) (\<lambda>d. Inr (Some d))
                else Inr None) of
           Inr (Some user_doc') \<Rightarrow>
             store_loop B now batch_num uid (Suc idx) rest (user_doc', Suc stored_count, errors)
         | Inr None \<Rightarrow>
             store_loop B now batch_num uid (Suc idx) rest
               (user_doc, stored_count, errors @ [''Invalid item data for item '' @ dec_nat idx])
         | Inl e \<Rightarrow>
             store_loop B now batch_num uid (Suc idx) rest
               (user_doc, stored_count,
                errors @ [''Error storing item '' @ dec_nat idx @ '' for user '' @ uid @ '': '' @
                          exn_str e])))"

text \<open>
  \<open>existing_docs[0] if existing_docs else {...}\<close>, where the new document reads
  \<open>items[0].get('supplier', '') if items else ''\<close>.
\<close>

definition initial_doc :: "store_env \<Rightarrow> storedata \<Rightarrow> dict list \<Rightarrow> pyexn + dict" where
  "initial_doc SE sd existing_docs =
     (case existing_docs of
        d # ds \<Rightarrow> Inr d
      | [] \<Rightarrow>
          ebind (case sd_items sd of
                   [] \<Rightarrow> Inr (PStr [])
                 | first # others \<Rightarrow> py_get first ''supplier'' (PStr [])) (\<lambda>supplier_name.
            Inr [(''id'', PStr (sd_user_id sd)),
                 (''userId'', PStr (sd_user_id sd)),
                 (''supplier_name'', supplier_name),
                 (''items'', PList []),
                 (''timestamp'', PStr (now_new SE))]))"

definition batch_result :: "storedata \<Rightarrow> pyval \<Rightarrow> nat \<Rightarrow> string list \<Rightarrow> dict" where
  "batch_result sd batch_num stored_count errors =
     [(''status'',
         PStr (if stored_count = length (sd_items sd) then ''success''
               else if stored_count > 0 then ''partial_failure'' else ''failure'')),
      (''batch'', batch_num),
      (''stored_count'', PInt (int stored_count)),
      (''total_items'', PInt (int (length (sd_items sd)))),
      (''errors'', PList (map PStr errors)),
      (''user_id'', PStr (sd_user_id sd))]"

text \<open>
  \<open>store_items_activity\<close>: the activity's result (an exception when it raises), the container
  afterwards, and the upsert attempts and sleeps it made. Both outer handlers log and
  re-raise.
\<close>

definition store_items_activity ::
  "store_env \<Rightarrow> storedata \<Rightarrow> dict list \<Rightarrow> (pyexn + dict) \<times> dict list \<times> event list" where
  "store_items_activity SE sd docs =
     (let batch_num = (case sd_batch sd of None \<Rightarrow> PInt 0 | Some b \<Rightarrow> b) in
      case query_exn SE of
        Some e \<Rightarrow> (Inl e, docs, [])
      | None \<Rightarrow>
     (case initial_doc SE sd (query_items docs (sd_user_id sd)) of
        Inl e \<Rightarrow> (Inl e, docs, [])
      | Inr user_doc0 \<Rightarrow>
     (case store_loop (st_interp SE) (now_item SE) batch_num (sd_user_id sd) 0 (sd_items sd)
             (user_doc0, 0, []) of
        (user_doc1, stored_count, errors) \<Rightarrow>
     (let user_doc2 = AList.update ''timestamp'' (PStr (now_meta SE)) user_doc1 in
      case ebind (subscript user_doc2 ''items'') py_len of
        Inl e \<Rightarrow> (Inl e, docs, [])
      | Inr n \<Rightarrow>
     (let user_doc3 = AList.update ''itemCount'' (PInt (int n)) user_doc2;
          max_retries = 3 in
      case retry_loop (upsert_exn SE) max_retries [0..<max_retries] of
        (Inl e, tr) \<Rightarrow> (Inl e, docs, tr)
      | (Inr u, tr) \<Rightarrow>
          (Inr (batch_result sd batch_num stored_count errors), upsert_doc user_doc3 docs, tr))))))"

text \<open>The containers that runs of the activity can produce from an empty container.\<close>

inductive reachable :: "dict list \<Rightarrow> bool" where
  empty: "reachable []"
| step: "reachable docs \<Longrightarrow> store_items_activity SE sd docs = (Inr res, docs', tr)
           \<Longrightarrow> reachable docs'"

section \<open>Example inputs\<close>

text \<open>
  Concrete inputs for the evaluations below: built-ins whose float parser knows the literal
  \<open>nan\<close> only, a processed item as \<open>process_single_item\<close> returns it, and the same item
  without an item number (the empty-string default of an absent \<open>Item Number\<close>).
\<close>

definition example_builtins :: builtins where
  "example_builtins =
     \<lparr>parse_float = (\<lambda>s. if s = ''nan'' then Some NaN else None),
      str_other = (\<lambda>v. ''?''),
      repr_str = (\<lambda>s. [CHR 0x27] @ s @ [CHR 0x27])\<rparr>"

definition example_item :: "string \<Rightarrow> pyval \<Rightarrow> pyval" where
  "example_item item_number case_price =
     PDict [(''supplier'', PStr ''Acme Foods''),
            (''invoice_id'', PStr ''inv-1''),
            (''invoice_number'', PStr ''1001''),
            (''userId'', PStr ''u1''),
            (''itemName'', PStr ''Heinz Ketchup''),
            (''itemNumber'', PStr item_number),
            (''quantityInCase'', PFloat (Fin 6)),
            (''measurementOfEachItem'', PFloat (Fin 32)),
            (''measuredIn'', PStr ''oz''),
            (''totalUnitsOrdered'', PFloat (Fin 12)),
            (''casePrice'', case_price),
            (''catchWeight'', PStr ''N/A''),
            (''pricedBy'', PStr ''case''),
            (''splitable'', PStr ''NO''),
            (''splitPrice'', PStr ''N/A''),
            (''costOfUnit'', PFloat (Fin 4)),
            (''productCategory'', PStr ''Dry Grocery''),
            (''final_corrected_name'', PStr ''Ketchup'')]"

definition complete_item :: pyval where
  "complete_item = example_item ''K-12'' (PFloat (Fin 24))"

definition item_without_number :: pyval where
  "item_without_number = example_item [] (PFloat (Fin 24))"

definition example_store_env :: "(nat \<Rightarrow> pyexn option) \<Rightarrow> store_env" where
  "example_store_env up =
     \<lparr>st_interp = example_builtins,
      query_exn = None,
      upsert_exn = up,
      now_new = ''2024-01-01T00:00:00'',
      now_item = (\<lambda>idx. ''2024-01-01T00:00:01''),
      now_meta = ''2024-01-01T00:00:02''\<rparr>"

definition example_storedata :: "pyval list \<Rightarrow> storedata" where
  "example_storedata batch_items =
     \<lparr>sd_items = batch_items, sd_user_id = ''u1'', sd_batch = Some (PInt 1)\<rparr>"

text \<open>A storage record as \<open>store_items_activity\<close> builds it, with a chosen \<open>Case Price\<close>.\<close>

definition example_record :: "pyval \<Rightarrow> dict" where
  "example_record case_price =
     [(''Supplier Name'', PStr ''Acme Foods''),
      (''Inventory Item Name'', PStr ''Ketchup''),
      (''Brand'', PStr ''Heinz''),
      (''Inventory Unit of Measure'', PStr ''oz''),
      (''Item Name'', PStr ''Heinz Ketchup''),
      (''Item Number'', PStr ''K-12''),
      (''Quantity In a Case'', PFloat (Fin 6)),
      (''Measurement Of Each Item'', PFloat (Fin 32)),
      (''Measured In'', PStr ''oz''),
      (''Total Units'', PFloat (Fin 12)),
      (''Case Price'', case_price),
      (''Catch Weight'', PStr ''N/A''),
      (''Priced By'', PStr ''case''),
      (''Splitable'', PStr ''NO''),
      (''Split Price'', PStr ''N/A''),
      (''Cost of a Unit'', PFloat (Fin 4)),
      (''Category'', PStr ''Dry Grocery''),
      (''timestamp'', PStr ''2024-01-01T00:00:01''),
      (''batchNumber'', PInt 1)]"

text \<open>The document that the activity creates for user \<open>u1\<close> when the container has none.\<close>

definition example_new_doc :: "pyval list \<Rightarrow> dict" where
  "example_new_doc stored =
     [(''id'', PStr ''u1''),
      (''userId'', PStr ''u1''),
      (''supplier_name'', PStr ''Acme Foods''),
      (''items'', PList stored),
      (''timestamp'', PStr ''2024-01-01T00:00:00'')]"

text \<open>
  A raw invoice item with a chosen \<open>Case Price\<close>, the input of \<open>process_single_item\<close> for it,
  and a client that answers the requests of a run from a list.
\<close>

definition example_raw_item :: "pyval \<Rightarrow> pyval" where
  "example_raw_item case_price =
     PDict [(''Item Name'', PStr ''Heinz Ketchup''),
            (''Item Number'', PStr ''K-12''),
            (''Quantity In a Case'', PInt 6),
            (''Measurement Of Each Item'', PInt 32),
            (''Measured In'', PStr ''oz''),
            (''Total Units Ordered'', PInt 12),
            (''Case Price'', case_price),
            (''Product Category'', PStr ''Dry Grocery'')]"

definition example_itemdata :: "pyval \<Rightarrow> dict" where
  "example_itemdata case_price =
     [(''item'', example_raw_item case_price),
      (''invoice_id'', PStr ''inv-1''),
      (''supplier'', PStr ''Acme Foods''),
      (''invoice_number'', PStr ''1001''),
      (''userId'', PStr ''u1'')]"

definition example_client :: "(pyexn + string option) list \<Rightarrow> client" where
  "example_client answers n rq =
     (if n < length answers then answers ! n
      else Inl (PyExn ''APIConnectionError'' ''Connection error.''))"

definition example_env :: "(pyexn + string option) list \<Rightarrow> env" where
  "example_env answers =
     \<lparr>new_client = Inr (example_client answers), training = [], interp = example_builtins\<rparr>"

text \<open>What \<open>process_single_item\<close> makes of the example raw item before the name rounds.\<close>

definition example_processed :: dict where
  "example_processed =
     [(''supplier'', PStr ''Acme Foods''),
      (''invoice_id'', PStr ''inv-1''),
      (''invoice_number'', PStr ''1001''),
      (''userId'', PStr ''u1''),
      (''itemName'', PStr ''Heinz Ketchup''),
      (''itemNumber'', PStr ''K-12''),
      (''quantityInCase'', PFloat (Fin 6)),
      (''measurementOfEachItem'', PFloat (Fin 32)),
      (''measuredIn'', PStr ''oz''),
      (''totalUnitsOrdered'', PFloat (Fin 12)),
      (''casePrice'', PFloat (Fin 24)),
      (''catchWeight'', PStr ''N/A''),
      (''pricedBy'', PStr ''''),
      (''splitable'', PStr ''NO''),
      (''splitPrice'', PStr ''N/A''),
      (''costOfUnit'', PFloat (Fin 0)),
      (''productCategory'', PStr ''Dry Grocery'')]"

text \<open>The requests of a run on the example item, given the name passed to each round.\<close>

definition example_rules :: string where
  "example_rules = category_rules_str [''Specify item type first'', ''Include key characteristics'']"

definition example_requests :: "pyval \<Rightarrow> pyval \<Rightarrow> request list" where
  "example_requests round1_name round2_name =
     [standardize_request
        (standardize_prompt example_builtins [] example_rules (PStr ''Heinz Ketchup'')),
      evaluate_request
        (evaluate_prompt example_builtins round1_name (PStr ''Heinz Ketchup'') example_rules []),
      evaluate_request
        (evaluate_prompt example_builtins round2_name (PStr ''Heinz Ketchup'') example_rules [])]"

section \<open>The storage loop as a function of the batch\<close>

text \<open>
  What the loop of \<open>store_items_activity\<close> is expected to compute, item by item: an item is
  accepted when it is non-empty, its formatting raises nothing and the formatted record
  passes \<open>validate_storage_item\<close>; an empty item is skipped; every other item is rejected with
  one message. \<open>accepted_records\<close> and \<open>rejection_errors\<close> list the records and the messages in
  batch order, the index counting all items.
\<close>

definition accepted :: "builtins \<Rightarrow> (nat \<Rightarrow> string) \<Rightarrow> pyval \<Rightarrow> nat \<Rightarrow> pyval \<Rightarrow> bool" where
  "accepted B now batch_num idx item =
     (truthy item \<and>
      (case format_storage_item B (now idx) batch_num item of
         Inl e \<Rightarrow> False
       | Inr storage_item \<Rightarrow> validate_storage_item storage_item))"

definition rejected :: "builtins \<Rightarrow> (nat \<Rightarrow> string) \<Rightarrow> pyval \<Rightarrow> nat \<Rightarrow> pyval \<Rightarrow> bool" where
  "rejected B now batch_num idx item = (truthy item \<and> \<not> accepted B now batch_num idx item)"

fun accepted_records ::
  "builtins \<Rightarrow> (nat \<Rightarrow> string) \<Rightarrow> pyval \<Rightarrow> nat \<Rightarrow> pyval list \<Rightarrow> pyval list" where
  "accepted_records B now batch_num idx [] = []"
| "accepted_records B now batch_num idx (item # rest) =
     (if accepted B now batch_num idx item
      then (case format_storage_item B (now idx) batch_num item of
              Inl e \<Rightarrow> []
            | Inr storage_item \<Rightarrow> [PDict storage_item])
      else [])
     @ accepted_records B now batch_num (Suc idx) rest"

fun rejection_errors ::
  "builtins \<Rightarrow> (nat \<Rightarrow> string) \<Rightarrow> pyval \<Rightarrow> string \<Rightarrow> nat \<Rightarrow> pyval list \<Rightarrow> string list" where
  "rejection_errors B now batch_num uid idx [] = []"
| "rejection_errors B now batch_num uid idx (item # rest) =
     (if rejected B now batch_num idx item
      then (case format_storage_item B (now idx) batch_num item of
              Inl e \<Rightarrow> [''Error storing item '' @ dec_nat idx @ '' for user '' @ uid @ '': '' @
                        exn_str e]
            | Inr storage_item \<Rightarrow> [''Invalid item data for item '' @ dec_nat idx])
      else [])
     @ rejection_errors B now batch_num uid (Suc idx) rest"

text \<open>
  Shapes that the statements about the activity refer to: a value that is a dictionary, a
  document whose \<open>items\<close> is a list, and a document whose \<open>itemCount\<close> is the length of that
  list.
\<close>

definition is_dict :: "pyval \<Rightarrow> bool" where
  "is_dict v = (case v of PDict kvs \<Rightarrow> True | _ \<Rightarrow> False)"

definition has_item_list :: "dict \<Rightarrow> bool" where
  "has_item_list d = (case map_of d ''items'' of Some (PList xs) \<Rightarrow> True | _ \<Rightarrow> False)"

definition count_consistent :: "dict \<Rightarrow> bool" where
  "count_consistent d =
     (case map_of d ''items'' of
        Some (PList xs) \<Rightarrow> map_of d ''itemCount'' = Some (PInt (int (length xs)))
      | _ \<Rightarrow> False)"

text \<open>The batch number that the activity reads: \<open>storedata.get('batch', 0)\<close>.\<close>

definition batch_of :: "storedata \<Rightarrow> pyval" where
  "batch_of sd = (case sd_batch sd of None \<Rightarrow> PInt 0 | Some b \<Rightarrow> b)"

text \<open>
  The document of user \<open>u1\<close> after a run of the activity on an empty container that stored
  the given records.
\<close>

definition example_stored_doc :: "pyval list \<Rightarrow> dict" where
  "example_stored_doc stored =
     [(''id'', PStr ''u1''),
      (''userId'', PStr ''u1''),
      (''supplier_name'', PStr ''Acme Foods''),
      (''items'', PList stored),
      (''timestamp'', PStr ''2024-01-01T00:00:02''),
      (''itemCount'', PInt (int (length stored)))]"

section \<open>Properties of the string primitives\<close>

lemma split_on_nonempty: "split_on c s \<noteq> []"
  by (induction s) (auto split: list.splits)

lemma join_split_on: "join [c] (split_on c s) = s"
proof (induction s)
  case Nil
  show ?case by simp
next
  case (Cons x xs)
  obtain w ws where ws: "split_on c xs = w # ws"
    using split_on_nonempty [of c xs] by (cases "split_on c xs") auto
  show ?case using Cons ws by (cases ws) auto
qed

lemma split_on_no_sep: "l \<in> set (split_on c s) \<Longrightarrow> c \<notin> set l"
  by (induction s arbitrary: l) (auto split: if_splits list.splits)

lemma split_on_single: "c \<notin> set s \<Longrightarrow> split_on c s = [s]"
  by (induction s) (auto split: list.splits)

lemma split_on_first: "index (split_on c s) 0 = Inr (takeWhile (\<lambda>x. x \<noteq> c) s)"
proof (induction s)
  case Nil
  show ?case by (simp add: index_def)
next
  case (Cons x xs)
  then show ?case
    by (cases "split_on c xs") (auto simp: index_def split: if_splits)
qed

lemma split_on_length: "Suc 0 < length (split_on c s) \<longleftrightarrow> c \<in> set s"
proof (induction s)
  case Nil
  show ?case by simp
next
  case (Cons x xs)
  then show ?case
    using split_on_nonempty [of c xs]
    by (cases "split_on c xs") auto
qed

lemma py_replace_same: "py_replace a a s = s"
  by (induction s) (simp_all add: py_replace_def)

lemma split_ws_empty: "py_split_ws s = [] \<longleftrightarrow> (\<forall>c\<in>set s. py_isspace c)"
  by (induction s) (auto split: list.splits)

lemma split_ws_first:
  "py_split_ws s = w # ws \<Longrightarrow>
     w = takeWhile (\<lambda>c. \<not> py_isspace c) (dropWhile py_isspace s) \<and> w \<noteq> []"
proof (induction s arbitrary: w ws)
  case Nil
  then show ?case by simp
next
  case (Cons x xs)
  show ?case
  proof (cases "py_isspace x")
    case True
    with Cons.prems have "py_split_ws xs = w # ws" by simp
    from Cons.IH [OF this] show ?thesis using True by auto
  next
    case nsp: False
    show ?thesis
    proof (cases "xs = [] \<or> py_isspace (hd xs)")
      case True
      with nsp Cons.prems have "w = [x]" by simp
      moreover have "takeWhile (\<lambda>c. \<not> py_isspace c) xs = []"
        using True by (cases xs) auto
      ultimately show ?thesis using nsp by simp
    next
      case False
      then obtain y ys where xs: "xs = y # ys" and y: "\<not> py_isspace y"
        by (cases xs) auto
      have "\<not> (\<forall>c\<in>set xs. py_isspace c)"
        using xs y by auto
      then have "py_split_ws xs \<noteq> []"
        by (simp only: split_ws_empty not_False_eq_True)
      then obtain w' ws' where w': "py_split_ws xs = w' # ws'"
        by (cases "py_split_ws xs") auto
      from Cons.IH [OF w']
      have ih: "w' = takeWhile (\<lambda>c. \<not> py_isspace c) (dropWhile py_isspace xs)"
        by simp
      have "w = x # w'"
        using Cons.prems nsp False w' by simp
      then show ?thesis using ih nsp xs y by simp
    qed
  qed
qed

lemma lower_char_colon: "lower_char c = CHR '':'' \<longleftrightarrow> c = CHR '':''"
  by (cases c) (auto simp add: lower_char_def py_isupper_def)

section \<open>The final-name extractor\<close>

lemma label_has_colon:
  assumes "startswith (py_lower l) ''final corrected name:''"
  shows "CHR '':'' \<in> set l"
proof -
  have "CHR '':'' \<in> set (take (length ''final corrected name:'') (map lower_char l))"
    using assms unfolding startswith_def py_lower_def by simp
  then have "CHR '':'' \<in> set (map lower_char l)"
    by (rule in_set_takeD)
  then obtain c where "c \<in> set l" "lower_char c = CHR '':''" by auto
  then show ?thesis by (simp add: lower_char_colon)
qed

lemma scan_final_name_find:
  "scan_final_name ls =
     Inr (map_option (\<lambda>l. py_strip (tl (dropWhile (\<lambda>c. c \<noteq> CHR '':'') l)))
           (find (\<lambda>l. startswith (py_lower l) ''final corrected name:'') ls))"
proof (induction ls)
  case Nil
  show ?case by simp
next
  case (Cons l ls)
  show ?case
  proof (cases "startswith (py_lower l) ''final corrected name:''")
    case True
    then have "CHR '':'' \<in> set l" by (rule label_has_colon)
    with True show ?thesis by (simp add: split_once_def index_def ebind_def)
  next
    case False
    with Cons show ?thesis by simp
  qed
qed

lemma sentinel_first_line:
  "\<not> startswith (py_lower (''Error: '' @ d)) ''final corrected name:''"
  by (simp add: startswith_def py_lower_def lower_char_def py_isupper_def)

lemma extract_final_name_example:
  "extract_final_name (PStr ''Final corrected name: Chicken, Diced\<newline>Explanation: ...'')
     = Some ''Chicken, Diced''"
  by (simp add: extract_final_name_def startswith_def py_lower_def lower_char_def
        py_isupper_def split_once_def index_def ebind_def py_strip_def py_isspace_def)

text \<open>
  Claim C6. For every text, \<open>extract_final_name\<close> cuts the text at its line feeds (the pieces
  joined by line feeds give the text back and hold no line feed), takes the first piece whose
  lower-case form starts with \<open>final corrected name:\<close> and returns what follows that piece's
  first colon, stripped of surrounding whitespace; when no piece matches it returns \<open>None\<close>.
  It is a total function: the exception handler of the source is the \<open>None\<close> branch. A
  one-line \<open>Error: ...\<close> sentinel has no matching piece and gives \<open>None\<close>, and the text
  \<open>Final corrected name: Chicken, Diced\<close> followed by an explanation line gives
  \<open>Chicken, Diced\<close>.
\<close>

theorem extract_final_name_spec:
  "join ''\<newline>'' (split_on CHR ''\<newline>'' text) = text
   \<and> (\<forall>l\<in>set (split_on CHR ''\<newline>'' text). CHR ''\<newline>'' \<notin> set l)
   \<and> extract_final_name (PStr text) =
        (case find (\<lambda>l. startswith (py_lower l) ''final corrected name:'')
                (split_on CHR ''\<newline>'' text) of
           None \<Rightarrow> None
         | Some l \<Rightarrow> Some (py_strip (tl (dropWhile (\<lambda>c. c \<noteq> CHR '':'') l))))
   \<and> (CHR ''\<newline>'' \<notin> set detail \<longrightarrow> extract_final_name (PStr (''Error: '' @ detail)) = None)
   \<and> extract_final_name (PStr ''Final corrected name: Chicken, Diced\<newline>Explanation: ...'')
        = Some ''Chicken, Diced''"
proof (intro conjI impI)
  show "join ''\<newline>'' (split_on CHR ''\<newline>'' text) = text"
    by (rule join_split_on)
  show "\<forall>l\<in>set (split_on CHR ''\<newline>'' text). CHR ''\<newline>'' \<notin> set l"
    by (blast dest: split_on_no_sep)
  show "extract_final_name (PStr text) =
        (case find (\<lambda>l. startswith (py_lower l) ''final corrected name:'')
                (split_on CHR ''\<newline>'' text) of
           None \<Rightarrow> None
         | Some l \<Rightarrow> Some (py_strip (tl (dropWhile (\<lambda>c. c \<noteq> CHR '':'') l))))"
    by (simp add: extract_final_name_def scan_final_name_find split: option.splits)
  show "extract_final_name (PStr ''Final corrected name: Chicken, Diced\<newline>Explanation: ...'')
        = Some ''Chicken, Diced''"
    by (rule extract_final_name_example)
next
  assume "CHR ''\<newline>'' \<notin> set detail"
  then have "CHR ''\<newline>'' \<notin> set (''Error: '' @ detail)" by simp
  then have "split_on CHR ''\<newline>'' (''Error: '' @ detail) = [''Error: '' @ detail]"
    by (rule split_on_single)
  then show "extract_final_name (PStr (''Error: '' @ detail)) = None"
    using sentinel_first_line [of detail] by (simp add: extract_final_name_def)
qed

theorem extract_final_name_spec_witness:
  "CHR ''\<newline>'' \<notin> set ''timed out''
   \<and> extract_final_name (PStr ''Error: timed out'') = None
   \<and> ''Explanation: ...''
        \<in> set (split_on CHR ''\<newline>'' ''Final corrected name: Chicken, Diced\<newline>Explanation: ...'')
   \<and> CHR ''\<newline>'' \<notin> set ''Explanation: ...''"
  using extract_final_name_spec
    [of "''Final corrected name: Chicken, Diced\<newline>Explanation: ...''" "''timed out''"]
  by simp

section \<open>Brand extraction\<close>

lemma brand_slash:
  assumes "CHR ''/'' \<in> set s"
  shows "extract_brand (PStr s) = py_strip (takeWhile (\<lambda>c. c \<noteq> CHR ''/'') s)"
proof -
  have "\<not> py_isspace (CHR ''/'')" by (simp add: py_isspace_def)
  with assms have "py_split_ws s \<noteq> []" by (auto simp: split_ws_empty)
  then show ?thesis
    using assms by (simp add: extract_brand_def brand_of_str_def split_on_first ebind_def)
qed

lemma brand_apostrophe:
  assumes "CHR ''/'' \<notin> set s" "CHR 0x27 \<in> set s"
  shows "extract_brand (PStr s) = py_strip (takeWhile (\<lambda>c. c \<noteq> CHR 0x27) s)"
proof -
  have "\<not> py_isspace (CHR 0x27)" by (simp add: py_isspace_def)
  with assms have "py_split_ws s \<noteq> []" by (auto simp: split_ws_empty)
  then show ?thesis
    using assms
    by (simp add: extract_brand_def brand_of_str_def split_on_first ebind_def
          py_replace_same split_on_length Let_def)
qed

lemma brand_first_word:
  assumes "CHR ''/'' \<notin> set s" "CHR 0x27 \<notin> set s"
  shows "extract_brand (PStr s) =
           (case takeWhile (\<lambda>c. \<not> py_isspace c) (dropWhile py_isspace s) of
              [] \<Rightarrow> ''Generic''
            | c # cs \<Rightarrow> if py_isupper c then c # cs else ''Generic'')"
proof (cases "py_split_ws s")
  case Nil
  then have "\<forall>c\<in>set s. py_isspace c" by (simp add: split_ws_empty)
  then have d: "dropWhile py_isspace s = []" by simp
  show ?thesis
    by (simp add: extract_brand_def brand_of_str_def Nil d)
next
  case (Cons w ws)
  from split_ws_first [OF Cons]
  have w: "takeWhile (\<lambda>c. \<not> py_isspace c) (dropWhile py_isspace s) = w" and ne: "w \<noteq> []"
    by blast+
  from ne obtain c cs where wc: "w = c # cs" by (cases w) auto
  show ?thesis
    using assms Cons
    by (simp add: extract_brand_def brand_of_str_def w wc index_def ebind_def)
qed

lemma brand_examples:
  "extract_brand (PStr ''Tyson/Chicken Breast'') = ''Tyson''"
  "extract_brand (PStr ''Bob's Sauce'') = ''Bob''"
  "extract_brand (PStr ''fresh basil'') = ''Generic''"
  "extract_brand (PStr ''Heinz Ketchup'') = ''Heinz''"
  by (simp_all add: extract_brand_def brand_of_str_def index_def ebind_def py_isspace_def
        py_strip_def py_isupper_def py_replace_def)

text \<open>
  Claim C5, as stated, fails: the brand is not the substring before the first \<open>/\<close> itself
  but that substring with its surrounding whitespace removed. For \<open>Tyson /Chicken\<close> the
  substring before the slash ends in a space and the brand does not.
\<close>

theorem extract_brand_substring_counterexample:
  "CHR ''/'' \<in> set ''Tyson /Chicken''
   \<and> extract_brand (PStr ''Tyson /Chicken'') \<noteq> takeWhile (\<lambda>c. c \<noteq> CHR ''/'') ''Tyson /Chicken''"
  by (simp add: extract_brand_def brand_of_str_def index_def ebind_def py_isspace_def
        py_strip_def py_isupper_def py_replace_def)

text \<open>
  Claim C5, amended. For every item name: if it contains \<open>/\<close>, the brand is the substring
  before the first \<open>/\<close>, stripped of surrounding whitespace; else if it contains an apostrophe,
  the substring before the first apostrophe, stripped; else if its first whitespace-separated
  word starts with an upper-case letter, that word; else \<open>Generic\<close>. The four examples of the
  claim hold.
\<close>

theorem extract_brand_priority:
  "(CHR ''/'' \<in> set s \<longrightarrow>
      extract_brand (PStr s) = py_strip (takeWhile (\<lambda>c. c \<noteq> CHR ''/'') s))
   \<and> (CHR ''/'' \<notin> set s \<and> CHR 0x27 \<in> set s \<longrightarrow>
      extract_brand (PStr s) = py_strip (takeWhile (\<lambda>c. c \<noteq> CHR 0x27) s))
   \<and> (CHR ''/'' \<notin> set s \<and> CHR 0x27 \<notin> set s \<longrightarrow>
      extract_brand (PStr s) =
        (case takeWhile (\<lambda>c. \<not> py_isspace c) (dropWhile py_isspace s) of
           [] \<Rightarrow> ''Generic''
         | c # cs \<Rightarrow> if py_isupper c then c # cs else ''Generic''))
   \<and> extract_brand (PStr ''Tyson/Chicken Breast'') = ''Tyson''
   \<and> extract_brand (PStr ''Bob's Sauce'') = ''Bob''
   \<and> extract_brand (PStr ''fresh basil'') = ''Generic''
   \<and> extract_brand (PStr ''Heinz Ketchup'') = ''Heinz''"
proof (intro conjI impI)
  assume "CHR ''/'' \<in> set s"
  then show "extract_brand (PStr s) = py_strip (takeWhile (\<lambda>c. c \<noteq> CHR ''/'') s)"
    by (rule brand_slash)
next
  assume "CHR ''/'' \<notin> set s \<and> CHR 0x27 \<in> set s"
  then show "extract_brand (PStr s) = py_strip (takeWhile (\<lambda>c. c \<noteq> CHR 0x27) s)"
    using brand_apostrophe by blast
next
  assume "CHR ''/'' \<notin> set s \<and> CHR 0x27 \<notin> set s"
  then show "extract_brand (PStr s) =
        (case takeWhile (\<lambda>c. \<not> py_isspace c) (dropWhile py_isspace s) of
           [] \<Rightarrow> ''Generic''
         | c # cs \<Rightarrow> if py_isupper c then c # cs else ''Generic'')"
    using brand_first_word by blast
qed (rule brand_examples)+

theorem extract_brand_priority_witness:
  "CHR ''/'' \<in> set ''Tyson /Chicken'' \<and> extract_brand (PStr ''Tyson /Chicken'') = ''Tyson''"
  using extract_brand_priority [of "''Tyson /Chicken''"]
  by (simp add: py_strip_def py_isspace_def)

section \<open>Category rules\<close>

text \<open>
  Claim C2 does not hold of the code: the rule lookup is \<open>category_specific_rules.get(category,
  [])\<close>, an exact dictionary lookup. The category \<open>bakery\<close> differs from the stored key
  \<open>BAKERY\<close> only in letter case (the example filter two lines above treats them as equal),
  yet it gets no rules where \<open>BAKERY\<close> gets two.
\<close>

theorem category_rules_case_sensitive:
  "py_lower ''bakery'' = py_lower ''BAKERY''
   \<and> category_rules_of (PStr ''BAKERY'')
        = Inr [''Specify bread type first'', ''Include shape and size if relevant'']
   \<and> category_rules_of (PStr ''bakery'') = Inr []"
  by (simp add: category_rules_of_def category_specific_rules_def py_lower_def lower_char_def
        py_isupper_def)

section \<open>Validation of a storage record\<close>

lemma check_required_iff:
  "check_required item fs \<longleftrightarrow> (\<forall>f\<in>set fs. truthy (dict_get item f PNone))"
  by (induction fs) auto

lemma check_numeric_iff:
  "check_numeric item fs \<longleftrightarrow>
     (\<forall>f\<in>set fs. case dict_get item f PNone of
                     PInt i \<Rightarrow> 0 \<le> i
                   | PBool b \<Rightarrow> True
                   | PFloat x \<Rightarrow> \<not> float_lt_zero x
                   | _ \<Rightarrow> False)"
  by (induction fs) (auto split: pyval.splits)

lemma validate_storage_item_iff:
  "validate_storage_item item \<longleftrightarrow>
     (\<forall>f\<in>set required_fields. truthy (dict_get item f PNone))
     \<and> (\<forall>f\<in>set numeric_fields. case dict_get item f PNone of
                     PInt i \<Rightarrow> 0 \<le> i
                   | PBool b \<Rightarrow> True
                   | PFloat x \<Rightarrow> \<not> float_lt_zero x
                   | _ \<Rightarrow> False)"
  by (simp only: validate_storage_item_def check_required_iff check_numeric_iff if_bool_eq_conj)
     blast

lemma float_sign_cases: "float_ge_zero x \<longleftrightarrow> \<not> float_lt_zero x \<and> x \<noteq> NaN"
  by (cases x) auto

lemma validate_complete: "validate_storage_item (example_record (PFloat (Fin 24)))"
  by (simp add: validate_storage_item_def example_record_def required_fields_def
        numeric_fields_def dict_get_def)

text \<open>
  Claim C4 does not hold of the code at one point: the numeric test is \<open>item.get(field) < 0\<close>,
  which is false for a NaN, so a record whose \<open>Case Price\<close> is the float NaN is accepted
  although NaN is not \<open>>= 0\<close>. The rest of the claim holds (\<open>validate_storage_item_iff\<close>): a
  record with \<open>Case Price\<close> \<open>-1\<close> or a string is rejected, one with all text fields non-empty
  and all numeric fields non-negative numbers is accepted.
\<close>

theorem validate_accepts_nan:
  "validate_storage_item (example_record (PFloat NaN))
   \<and> \<not> float_ge_zero NaN
   \<and> \<not> validate_storage_item (example_record (PInt (- 1)))
   \<and> \<not> validate_storage_item (example_record (PStr ''24.00''))
   \<and> validate_storage_item (example_record (PFloat (Fin 24)))"
  by (simp add: validate_storage_item_def example_record_def required_fields_def
        numeric_fields_def dict_get_def)

section \<open>The storage activity at concrete batches\<close>

lemma truthy_complete: "truthy complete_item"
  by (simp add: complete_item_def example_item_def)

lemma format_complete:
  "format_storage_item example_builtins ''2024-01-01T00:00:01'' (PInt 1) complete_item
     = Inr (example_record (PFloat (Fin 24)))"
  by (simp add: format_storage_item_def complete_item_def example_item_def example_record_def
        dict_get_def ebind_def extract_brand_def brand_of_str_def index_def py_isspace_def
        py_strip_def py_isupper_def py_replace_def)

lemma initial_doc_new:
  "initial_doc (example_store_env up) (example_storedata (complete_item # rest)) []
     = Inr (example_new_doc [])"
  by (simp add: initial_doc_def example_store_env_def example_storedata_def py_get_def
        complete_item_def example_item_def ebind_def example_new_doc_def)

lemma append_new:
  "append_item (example_new_doc stored) r = Inr (example_new_doc (stored @ [PDict r]))"
  by (simp add: append_item_def example_new_doc_def subscript_def ebind_def)

lemma query_empty: "query_items [] uid = []"
  by (simp add: query_items_def)

lemma asyncio_unbound:
  "asyncio_sleep secs = Inl (PyExn ''NameError'' ''name 'asyncio' is not defined'')"
  by (simp add: asyncio_sleep_def global_name_def module_globals_def ebind_def)

lemma retry_first_failure:
  "up 0 = Some e \<Longrightarrow>
   retry_loop up 3 [0..<3]
     = (Inl (PyExn ''NameError'' ''name 'asyncio' is not defined''), [Upsert 0])"
  by (simp add: upt_rec asyncio_unbound)

lemma retry_first_success: "up 0 = None \<Longrightarrow> retry_loop up 3 [0..<3] = (Inr (), [Upsert 0])"
  by (simp add: upt_rec)

lemma store_loop_complete:
  "store_loop example_builtins (\<lambda>idx. ''2024-01-01T00:00:01'') (PInt 1) ''u1'' idx
     (complete_item # rest) (example_new_doc stored, n, errs)
   = store_loop example_builtins (\<lambda>idx. ''2024-01-01T00:00:01'') (PInt 1) ''u1'' (Suc idx)
       rest (example_new_doc (stored @ [PDict (example_record (PFloat (Fin 24)))]), Suc n, errs)"
  by (simp add: truthy_complete format_complete validate_complete append_new ebind_def)

lemma store_loop_complete_one:
  "store_loop example_builtins (\<lambda>idx. ''2024-01-01T00:00:01'') (PInt 1) ''u1'' 0
     [complete_item] (example_new_doc [], 0, [])
   = (example_new_doc [PDict (example_record (PFloat (Fin 24)))], 1, [])"
  by (simp add: store_loop_complete del: store_loop.simps(2))

lemma new_doc_items:
  "subscript (AList.update ''timestamp'' v (example_new_doc stored)) ''items''
     = Inr (PList stored)"
  by (simp add: subscript_def example_new_doc_def)

text \<open>
  Claim C7 does not hold of the code: \<open>function_app.py\<close> never imports \<open>asyncio\<close>, so the
  backoff \<open>await asyncio.sleep(1)\<close> after a failed upsert raises \<open>NameError\<close>. With a first
  upsert that fails and later ones that would succeed, the activity makes one attempt, no
  sleep and no retry, and raises; the container is unchanged.
\<close>

theorem store_items_activity_no_retry:
  "store_items_activity
     (example_store_env
        (\<lambda>attempt. if attempt = 0 then Some (PyExn ''ServiceUnavailable'' ''503'') else None))
     (example_storedata [complete_item]) []
   = (Inl (PyExn ''NameError'' ''name 'asyncio' is not defined''), [], [Upsert 0])"
  unfolding store_items_activity_def
  by (simp add: Let_def query_empty
        initial_doc_new [unfolded example_store_env_def example_storedata_def]
        example_store_env_def example_storedata_def store_loop_complete_one
        new_doc_items ebind_def retry_first_failure
        del: store_loop.simps)

section \<open>Processing one item\<close>

lemma ebind_Inr_iff: "ebind m f = Inr y \<longleftrightarrow> (\<exists>x. m = Inr x \<and> f x = Inr y)"
  by (cases m) (simp_all add: ebind_def)

lemma float_int_limit_pos: "0 < float_int_limit"
proof -
  have "(2::int) ^ 970 < 2 ^ 1024" by (rule power_strict_increasing) simp_all
  then show ?thesis by (simp add: float_int_limit_def)
qed

lemma float_zero: "py_float B (PInt 0) = Inr (Fin 0)"
  using float_int_limit_pos by simp

lemma get_float_absent:
  "map_of raw field = None \<Longrightarrow> get_float B (PDict raw) field = Inr (PFloat (Fin 0))"
  by (simp add: get_float_def py_get_def ebind_def float_zero del: py_float.simps)

lemma get_float_bad:
  "map_of raw field = Some v \<Longrightarrow> py_float B v = Inl e
     \<Longrightarrow> get_float B (PDict raw) field = Inl e"
  by (simp add: get_float_def py_get_def ebind_def)

lemma make_processed_item_shape:
  assumes "make_processed_item B itemdata = Inr p"
  shows "\<exists>item user_id supplier invoice_id invoice_number itemName itemNumber q m measuredIn t c
            catchWeight pricedBy splitable splitPrice u productCategory.
           subscript itemdata ''item'' = Inr item
         \<and> py_get item ''Item Name'' (PStr []) = Inr itemName
         \<and> py_get item ''Product Category'' (PStr []) = Inr productCategory
         \<and> get_float B item ''Quantity In a Case'' = Inr q
         \<and> get_float B item ''Measurement Of Each Item'' = Inr m
         \<and> get_float B item ''Total Units Ordered'' = Inr t
         \<and> get_float B item ''Case Price'' = Inr c
         \<and> get_float B item ''Cost of a Unit'' = Inr u
         \<and> p = [(''supplier'', supplier),
                 (''invoice_id'', invoice_id),
                 (''invoice_number'', invoice_number),
                 (''userId'', user_id),
                 (''itemName'', itemName),
                 (''itemNumber'', itemNumber),
                 (''quantityInCase'', q),
                 (''measurementOfEachItem'', m),
                 (''measuredIn'', measuredIn),
                 (''totalUnitsOrdered'', t),
                 (''casePrice'', c),
                 (''catchWeight'', catchWeight),
                 (''pricedBy'', pricedBy),
                 (''splitable'', splitable),
                 (''splitPrice'', splitPrice),
                 (''costOfUnit'', u),
                 (''productCategory'', productCategory)]"
  using assms unfolding make_processed_item_def ebind_Inr_iff
  by (elim exE conjE) (simp, blast)

lemma process_body_Inr:
  assumes "process_body E itemdata = (Inr p', sent)"
  shows "\<exists>p. make_processed_item (interp E) itemdata = Inr p
           \<and> (p' = p \<or> (\<exists>n. n \<noteq> [] \<and> p' = AList.update ''final_corrected_name'' (PStr n) p))"
proof -
  obtain p where p: "make_processed_item (interp E) itemdata = Inr p"
    using assms
    by (cases "make_processed_item (interp E) itemdata")
       (auto simp: process_body_def ebind_def split: sum.splits)
  have "p' = p \<or> (\<exists>n. n \<noteq> [] \<and> p' = AList.update ''final_corrected_name'' (PStr n) p)"
    using assms p
    by (auto simp: process_body_def ebind_def Let_def opt_val_def
             split: sum.splits prod.splits if_splits option.splits)
  with p show ?thesis by blast
qed

lemma process_single_item_Some:
  assumes "process_single_item E itemdata = (Some p', sent)"
  shows "\<exists>p. make_processed_item (interp E) itemdata = Inr p
           \<and> (p' = p \<or> (\<exists>n. n \<noteq> [] \<and> p' = AList.update ''final_corrected_name'' (PStr n) p))"
proof -
  from assms have "process_body E itemdata = (Inr p', sent)"
    by (auto simp: process_single_item_def split: prod.splits sum.splits)
  then show ?thesis by (rule process_body_Inr)
qed

lemma bad_number_drops_item:
  assumes f: "field \<in> set [''Quantity In a Case'', ''Measurement Of Each Item'',
                  ''Total Units Ordered'', ''Case Price'', ''Cost of a Unit'']"
    and raw: "map_of itemdata ''item'' = Some (PDict raw)"
    and v: "map_of raw field = Some v" and bad: "py_float (interp E) v = Inl e"
  shows "process_single_item E itemdata = (None, [])"
proof -
  have "\<exists>e'. make_processed_item (interp E) itemdata = Inl e'"
  proof (cases "make_processed_item (interp E) itemdata")
    case (Inl e')
    then show ?thesis by blast
  next
    case (Inr p)
    from make_processed_item_shape [OF Inr] raw
    have "\<exists>x. get_float (interp E) (PDict raw) field = Inr x"
      using f by (auto simp: subscript_def)
    with get_float_bad [OF v bad] show ?thesis by simp
  qed
  then obtain e' where "make_processed_item (interp E) itemdata = Inl e'" ..
  then show ?thesis
    by (simp add: process_single_item_def process_body_def ebind_def split: sum.splits)
qed

lemma absent_number_defaults:
  assumes f: "(field, key) \<in> set [(''Quantity In a Case'', ''quantityInCase''),
                  (''Measurement Of Each Item'', ''measurementOfEachItem''),
                  (''Total Units Ordered'', ''totalUnitsOrdered''),
                  (''Case Price'', ''casePrice''),
                  (''Cost of a Unit'', ''costOfUnit'')]"
    and raw: "map_of itemdata ''item'' = Some (PDict raw)"
    and absent: "map_of raw field = None"
    and res: "process_single_item E itemdata = (Some p', sent)"
  shows "map_of p' key = Some (PFloat (Fin 0))"
proof -
  from process_single_item_Some [OF res] obtain p where
    p: "make_processed_item (interp E) itemdata = Inr p" and
    p': "p' = p \<or> (\<exists>n. n \<noteq> [] \<and> p' = AList.update ''final_corrected_name'' (PStr n) p)"
    by blast
  have key: "key \<noteq> ''final_corrected_name''" using f by auto
  from make_processed_item_shape [OF p] raw get_float_absent [OF absent, of "interp E"] f
  have "map_of p key = Some (PFloat (Fin 0))"
    by (auto simp: subscript_def)
  with p' key show ?thesis by (auto simp: update_conv')
qed

subsection \<open>The fields of the processed item\<close>

lemma py_get_dict: "py_get (PDict raw) k d = Inr (dict_get raw k d)"
  by (simp add: py_get_def dict_get_def)

lemma get_float_dict:
  "get_float B (PDict raw) k = Inr x
     \<longleftrightarrow> (\<exists>f. py_float B (dict_get raw k (PInt 0)) = Inr f \<and> x = PFloat f)"
  unfolding get_float_def py_get_dict ebind_Inr_iff by auto

lemma make_processed_item_dict:
  assumes p: "make_processed_item B itemdata = Inr p"
    and raw: "map_of itemdata ''item'' = Some (PDict raw)"
  shows "\<exists>supplier invoice_id invoice_number user_id q m t c u.
           py_float B (dict_get raw ''Quantity In a Case'' (PInt 0)) = Inr q
         \<and> py_float B (dict_get raw ''Measurement Of Each Item'' (PInt 0)) = Inr m
         \<and> py_float B (dict_get raw ''Total Units Ordered'' (PInt 0)) = Inr t
         \<and> py_float B (dict_get raw ''Case Price'' (PInt 0)) = Inr c
         \<and> py_float B (dict_get raw ''Cost of a Unit'' (PInt 0)) = Inr u
         \<and> p = [(''supplier'', supplier),
                 (''invoice_id'', invoice_id),
                 (''invoice_number'', invoice_number),
                 (''userId'', user_id),
                 (''itemName'', dict_get raw ''Item Name'' (PStr [])),
                 (''itemNumber'', dict_get raw ''Item Number'' (PStr [])),
                 (''quantityInCase'', PFloat q),
                 (''measurementOfEachItem'', PFloat m),
                 (''measuredIn'', dict_get raw ''Measured In'' (PStr [])),
                 (''totalUnitsOrdered'', PFloat t),
                 (''casePrice'', PFloat c),
                 (''catchWeight'', dict_get raw ''Catch Weight'' (PStr ''N/A'')),
                 (''pricedBy'', dict_get raw ''Priced By'' (PStr [])),
                 (''splitable'', dict_get raw ''Splitable'' (PStr ''NO'')),
                 (''splitPrice'', dict_get raw ''Split Price'' (PStr ''N/A'')),
                 (''costOfUnit'', PFloat u),
                 (''productCategory'', dict_get raw ''Product Category'' (PStr []))]"
proof -
  from raw have item: "subscript itemdata ''item'' = Inr (PDict raw)"
    by (simp add: subscript_def)
  from p show ?thesis
    unfolding make_processed_item_def ebind_Inr_iff item
    by (elim exE conjE) (clarsimp simp: py_get_dict get_float_dict simp del: py_float.simps)
qed

lemma make_processed_item_returns:
  assumes raw: "map_of itemdata ''item'' = Some (PDict raw)"
    and keys: "map_of itemdata ''userId'' = Some user_id"
      "map_of itemdata ''supplier'' = Some supplier"
      "map_of itemdata ''invoice_id'' = Some invoice_id"
      "map_of itemdata ''invoice_number'' = Some invoice_number"
    and floats: "py_float B (dict_get raw ''Quantity In a Case'' (PInt 0)) = Inr q"
      "py_float B (dict_get raw ''Measurement Of Each Item'' (PInt 0)) = Inr m"
      "py_float B (dict_get raw ''Total Units Ordered'' (PInt 0)) = Inr t"
      "py_float B (dict_get raw ''Case Price'' (PInt 0)) = Inr c"
      "py_float B (dict_get raw ''Cost of a Unit'' (PInt 0)) = Inr u"
  shows "make_processed_item B itemdata
           = Inr [(''supplier'', supplier),
                 (''invoice_id'', invoice_id),
                 (''invoice_number'', invoice_number),
                 (''userId'', user_id),
                 (''itemName'', dict_get raw ''Item Name'' (PStr [])),
                 (''itemNumber'', dict_get raw ''Item Number'' (PStr [])),
                 (''quantityInCase'', PFloat q),
                 (''measurementOfEachItem'', PFloat m),
                 (''measuredIn'', dict_get raw ''Measured In'' (PStr [])),
                 (''totalUnitsOrdered'', PFloat t),
                 (''casePrice'', PFloat c),
                 (''catchWeight'', dict_get raw ''Catch Weight'' (PStr ''N/A'')),
                 (''pricedBy'', dict_get raw ''Priced By'' (PStr [])),
                 (''splitable'', dict_get raw ''Splitable'' (PStr ''NO'')),
                 (''splitPrice'', dict_get raw ''Split Price'' (PStr ''N/A'')),
                 (''costOfUnit'', PFloat u),
                 (''productCategory'', dict_get raw ''Product Category'' (PStr []))]"
  unfolding make_processed_item_def get_float_def
  by (simp add: subscript_def raw keys floats py_get_dict ebind_def del: py_float.simps)

lemma float_of_field:
  assumes ok: "case map_of raw field of None \<Rightarrow> True | Some v \<Rightarrow> \<exists>f. py_float B v = Inr f"
  shows "\<exists>f. py_float B (dict_get raw field (PInt 0)) = Inr f"
  using ok float_zero [of B]
  by (cases "map_of raw field") (simp_all add: dict_get_def del: py_float.simps)

lemma processed_numeric:
  assumes p: "make_processed_item B itemdata = Inr p"
    and raw: "map_of itemdata ''item'' = Some (PDict raw)"
    and f: "(field, key) \<in> set [(''Quantity In a Case'', ''quantityInCase''),
                  (''Measurement Of Each Item'', ''measurementOfEachItem''),
                  (''Total Units Ordered'', ''totalUnitsOrdered''),
                  (''Case Price'', ''casePrice''),
                  (''Cost of a Unit'', ''costOfUnit'')]"
  shows "\<exists>x. py_float B (dict_get raw field (PInt 0)) = Inr x \<and> map_of p key = Some (PFloat x)"
  using make_processed_item_dict [OF p raw]
proof (elim exE conjE)
  fix supplier invoice_id invoice_number user_id q m t c u
  assume fl: "py_float B (dict_get raw ''Quantity In a Case'' (PInt 0)) = Inr q"
      "py_float B (dict_get raw ''Measurement Of Each Item'' (PInt 0)) = Inr m"
      "py_float B (dict_get raw ''Total Units Ordered'' (PInt 0)) = Inr t"
      "py_float B (dict_get raw ''Case Price'' (PInt 0)) = Inr c"
      "py_float B (dict_get raw ''Cost of a Unit'' (PInt 0)) = Inr u"
    and pd: "p = [(''supplier'', supplier),
                 (''invoice_id'', invoice_id),
                 (''invoice_number'', invoice_number),
                 (''userId'', user_id),
                 (''itemName'', dict_get raw ''Item Name'' (PStr [])),
                 (''itemNumber'', dict_get raw ''Item Number'' (PStr [])),
                 (''quantityInCase'', PFloat q),
                 (''measurementOfEachItem'', PFloat m),
                 (''measuredIn'', dict_get raw ''Measured In'' (PStr [])),
                 (''totalUnitsOrdered'', PFloat t),
                 (''casePrice'', PFloat c),
                 (''catchWeight'', dict_get raw ''Catch Weight'' (PStr ''N/A'')),
                 (''pricedBy'', dict_get raw ''Priced By'' (PStr [])),
                 (''splitable'', dict_get raw ''Splitable'' (PStr ''NO'')),
                 (''splitPrice'', dict_get raw ''Split Price'' (PStr ''N/A'')),
                 (''costOfUnit'', PFloat u),
                 (''productCategory'', dict_get raw ''Product Category'' (PStr []))]"
  from f have "(field = ''Quantity In a Case'' \<and> key = ''quantityInCase'')
      \<or> (field = ''Measurement Of Each Item'' \<and> key = ''measurementOfEachItem'')
      \<or> (field = ''Total Units Ordered'' \<and> key = ''totalUnitsOrdered'')
      \<or> (field = ''Case Price'' \<and> key = ''casePrice'')
      \<or> (field = ''Cost of a Unit'' \<and> key = ''costOfUnit'')"
    by simp
  then show ?thesis
  proof (elim disjE conjE)
    assume "field = ''Quantity In a Case''" "key = ''quantityInCase''"
    with fl(1) show ?thesis by (simp add: pd del: py_float.simps)
  next
    assume "field = ''Measurement Of Each Item''" "key = ''measurementOfEachItem''"
    with fl(2) show ?thesis by (simp add: pd del: py_float.simps)
  next
    assume "field = ''Total Units Ordered''" "key = ''totalUnitsOrdered''"
    with fl(3) show ?thesis by (simp add: pd del: py_float.simps)
  next
    assume "field = ''Case Price''" "key = ''casePrice''"
    with fl(4) show ?thesis by (simp add: pd del: py_float.simps)
  next
    assume "field = ''Cost of a Unit''" "key = ''costOfUnit''"
    with fl(5) show ?thesis by (simp add: pd del: py_float.simps)
  qed
qed

lemma processed_text:
  assumes p: "make_processed_item B itemdata = Inr p"
    and raw: "map_of itemdata ''item'' = Some (PDict raw)"
    and f: "(field, key, dflt) \<in> set [(''Item Name'', ''itemName'', PStr []),
                  (''Item Number'', ''itemNumber'', PStr []),
                  (''Measured In'', ''measuredIn'', PStr []),
                  (''Catch Weight'', ''catchWeight'', PStr ''N/A''),
                  (''Priced By'', ''pricedBy'', PStr []),
                  (''Splitable'', ''splitable'', PStr ''NO''),
                  (''Split Price'', ''splitPrice'', PStr ''N/A''),
                  (''Product Category'', ''productCategory'', PStr [])]"
  shows "map_of p key = Some (dict_get raw field dflt)"
  using make_processed_item_dict [OF p raw]
proof (elim exE conjE)
  fix supplier invoice_id invoice_number user_id q m t c u
  assume pd: "p = [(''supplier'', supplier),
                 (''invoice_id'', invoice_id),
                 (''invoice_number'', invoice_number),
                 (''userId'', user_id),
                 (''itemName'', dict_get raw ''Item Name'' (PStr [])),
                 (''itemNumber'', dict_get raw ''Item Number'' (PStr [])),
                 (''quantityInCase'', PFloat q),
                 (''measurementOfEachItem'', PFloat m),
                 (''measuredIn'', dict_get raw ''Measured In'' (PStr [])),
                 (''totalUnitsOrdered'', PFloat t),
                 (''casePrice'', PFloat c),
                 (''catchWeight'', dict_get raw ''Catch Weight'' (PStr ''N/A'')),
                 (''pricedBy'', dict_get raw ''Priced By'' (PStr [])),
                 (''splitable'', dict_get raw ''Splitable'' (PStr ''NO'')),
                 (''splitPrice'', dict_get raw ''Split Price'' (PStr ''N/A'')),
                 (''costOfUnit'', PFloat u),
                 (''productCategory'', dict_get raw ''Product Category'' (PStr []))]"
  from f have "(field = ''Item Name'' \<and> key = ''itemName'' \<and> dflt = PStr [])
      \<or> (field = ''Item Number'' \<and> key = ''itemNumber'' \<and> dflt = PStr [])
      \<or> (field = ''Measured In'' \<and> key = ''measuredIn'' \<and> dflt = PStr [])
      \<or> (field = ''Catch Weight'' \<and> key = ''catchWeight'' \<and> dflt = PStr ''N/A'')
      \<or> (field = ''Priced By'' \<and> key = ''pricedBy'' \<and> dflt = PStr [])
      \<or> (field = ''Splitable'' \<and> key = ''splitable'' \<and> dflt = PStr ''NO'')
      \<or> (field = ''Split Price'' \<and> key = ''splitPrice'' \<and> dflt = PStr ''N/A'')
      \<or> (field = ''Product Category'' \<and> key = ''productCategory'' \<and> dflt = PStr [])"
    by simp
  then show ?thesis
    by (elim disjE conjE) (simp_all add: pd)
qed

lemma numeric_field_kept:
  assumes f: "(field, key) \<in> set [(''Quantity In a Case'', ''quantityInCase''),
                  (''Measurement Of Each Item'', ''measurementOfEachItem''),
                  (''Total Units Ordered'', ''totalUnitsOrdered''),
                  (''Case Price'', ''casePrice''),
                  (''Cost of a Unit'', ''costOfUnit'')]"
    and raw: "map_of itemdata ''item'' = Some (PDict raw)"
    and res: "process_single_item E itemdata = (Some p', sent)"
  shows "\<exists>x. py_float (interp E) (dict_get raw field (PInt 0)) = Inr x
             \<and> map_of p' key = Some (PFloat x)"
proof -
  from process_single_item_Some [OF res] obtain p where
    p: "make_processed_item (interp E) itemdata = Inr p" and
    p': "p' = p \<or> (\<exists>n. n \<noteq> [] \<and> p' = AList.update ''final_corrected_name'' (PStr n) p)"
    by blast
  from f have key: "key \<noteq> ''final_corrected_name''" by auto
  from processed_numeric [OF p raw f] obtain x where
    x: "py_float (interp E) (dict_get raw field (PInt 0)) = Inr x"
    and px: "map_of p key = Some (PFloat x)" by blast
  from p' key px have "map_of p' key = Some (PFloat x)" by (auto simp: update_conv')
  with x show ?thesis by blast
qed

lemma text_field_kept:
  assumes f: "(field, key, dflt) \<in> set [(''Item Name'', ''itemName'', PStr []),
                  (''Item Number'', ''itemNumber'', PStr []),
                  (''Measured In'', ''measuredIn'', PStr []),
                  (''Catch Weight'', ''catchWeight'', PStr ''N/A''),
                  (''Priced By'', ''pricedBy'', PStr []),
                  (''Splitable'', ''splitable'', PStr ''NO''),
                  (''Split Price'', ''splitPrice'', PStr ''N/A''),
                  (''Product Category'', ''productCategory'', PStr [])]"
    and raw: "map_of itemdata ''item'' = Some (PDict raw)"
    and res: "process_single_item E itemdata = (Some p', sent)"
  shows "map_of p' key = Some (dict_get raw field dflt)"
proof -
  from process_single_item_Some [OF res] obtain p where
    p: "make_processed_item (interp E) itemdata = Inr p" and
    p': "p' = p \<or> (\<exists>n. n \<noteq> [] \<and> p' = AList.update ''final_corrected_name'' (PStr n) p)"
    by blast
  from f have key: "key \<noteq> ''final_corrected_name''" by auto
  from processed_text [OF p raw f] p' key show ?thesis by (auto simp: update_conv')
qed

text \<open>
  Claim C9. Let the raw item be a dictionary. For each of the five numeric raw fields: when
  the raw item has the field and \<open>float\<close> raises on its value, \<open>process_single_item\<close> returns
  \<open>None\<close> and has sent no request to the language model (the item is dropped, the value is not
  defaulted). In every item that the activity returns, a numeric field that the raw item
  lacks is \<open>0.0\<close> and one that it has is \<open>float\<close> of the raw value; a text field that the raw
  item lacks is its default (the empty string, \<open>N/A\<close> or \<open>NO\<close>) and one that it has is the raw
  value itself, whatever it is. When the four invoice keys are there and \<open>float\<close> raises on no
  numeric value that the raw item has, the mapping raises nothing.
\<close>

theorem process_single_item_defaults:
  assumes raw: "map_of itemdata ''item'' = Some (PDict raw)"
    and num: "(field, key) \<in> set [(''Quantity In a Case'', ''quantityInCase''),
                  (''Measurement Of Each Item'', ''measurementOfEachItem''),
                  (''Total Units Ordered'', ''totalUnitsOrdered''),
                  (''Case Price'', ''casePrice''),
                  (''Cost of a Unit'', ''costOfUnit'')]"
    and tf: "(tfield, tkey, dflt) \<in> set [(''Item Name'', ''itemName'', PStr []),
                  (''Item Number'', ''itemNumber'', PStr []),
                  (''Measured In'', ''measuredIn'', PStr []),
                  (''Catch Weight'', ''catchWeight'', PStr ''N/A''),
                  (''Priced By'', ''pricedBy'', PStr []),
                  (''Splitable'', ''splitable'', PStr ''NO''),
                  (''Split Price'', ''splitPrice'', PStr ''N/A''),
                  (''Product Category'', ''productCategory'', PStr [])]"
  shows
    "(map_of raw field = Some bad \<and> py_float (interp E) bad = Inl e
        \<longrightarrow> process_single_item E itemdata = (None, []))
     \<and> (process_single_item E itemdata = (Some p', sent) \<longrightarrow>
          (map_of raw field = None \<longrightarrow> map_of p' key = Some (PFloat (Fin 0)))
        \<and> (\<forall>v. map_of raw field = Some v \<longrightarrow>
              (\<exists>x. py_float (interp E) v = Inr x \<and> map_of p' key = Some (PFloat x)))
        \<and> (map_of raw tfield = None \<longrightarrow> map_of p' tkey = Some dflt)
        \<and> (\<forall>w. map_of raw tfield = Some w \<longrightarrow> map_of p' tkey = Some w))
     \<and> (map_of itemdata ''userId'' = Some user_id
          \<and> map_of itemdata ''supplier'' = Some supplier
          \<and> map_of itemdata ''invoice_id'' = Some invoice_id
          \<and> map_of itemdata ''invoice_number'' = Some invoice_number
          \<and> (\<forall>fld\<in>set [''Quantity In a Case'', ''Measurement Of Each Item'',
                          ''Total Units Ordered'', ''Case Price'', ''Cost of a Unit''].
                \<forall>v. map_of raw fld = Some v \<longrightarrow> (\<exists>x. py_float (interp E) v = Inr x))
        \<longrightarrow> (\<exists>p. make_processed_item (interp E) itemdata = Inr p))"
proof (intro conjI impI allI)
  assume "map_of raw field = Some bad \<and> py_float (interp E) bad = Inl e"
  moreover from num
  have "field \<in> set [''Quantity In a Case'', ''Measurement Of Each Item'',
                  ''Total Units Ordered'', ''Case Price'', ''Cost of a Unit'']"
    by auto
  ultimately show "process_single_item E itemdata = (None, [])"
    using bad_number_drops_item raw by blast
next
  assume "process_single_item E itemdata = (Some p', sent)" "map_of raw field = None"
  with absent_number_defaults [OF num raw]
  show "map_of p' key = Some (PFloat (Fin 0))" by blast
next
  fix v
  assume res: "process_single_item E itemdata = (Some p', sent)"
    and v: "map_of raw field = Some v"
  from numeric_field_kept [OF num raw res] v
  show "\<exists>x. py_float (interp E) v = Inr x \<and> map_of p' key = Some (PFloat x)"
    by (simp add: dict_get_def del: py_float.simps)
next
  assume res: "process_single_item E itemdata = (Some p', sent)"
    and "map_of raw tfield = None"
  with text_field_kept [OF tf raw res]
  show "map_of p' tkey = Some dflt" by (simp add: dict_get_def)
next
  fix w
  assume res: "process_single_item E itemdata = (Some p', sent)"
    and "map_of raw tfield = Some w"
  with text_field_kept [OF tf raw res]
  show "map_of p' tkey = Some w" by (simp add: dict_get_def)
next
  assume a: "map_of itemdata ''userId'' = Some user_id
          \<and> map_of itemdata ''supplier'' = Some supplier
          \<and> map_of itemdata ''invoice_id'' = Some invoice_id
          \<and> map_of itemdata ''invoice_number'' = Some invoice_number
          \<and> (\<forall>fld\<in>set [''Quantity In a Case'', ''Measurement Of Each Item'',
                          ''Total Units Ordered'', ''Case Price'', ''Cost of a Unit''].
                \<forall>v. map_of raw fld = Some v \<longrightarrow> (\<exists>x. py_float (interp E) v = Inr x))"
  have fl: "\<exists>x. py_float (interp E) (dict_get raw fld (PInt 0)) = Inr x"
    if "fld \<in> set [''Quantity In a Case'', ''Measurement Of Each Item'',
                   ''Total Units Ordered'', ''Case Price'', ''Cost of a Unit'']" for fld
  proof (rule float_of_field)
    from a that
    show "case map_of raw fld of None \<Rightarrow> True
          | Some v \<Rightarrow> \<exists>x. py_float (interp E) v = Inr x"
      by (cases "map_of raw fld") (simp_all del: py_float.simps, blast)
  qed
  from fl [of "''Quantity In a Case''"] obtain q where
    q: "py_float (interp E) (dict_get raw ''Quantity In a Case'' (PInt 0)) = Inr q" by auto
  from fl [of "''Measurement Of Each Item''"] obtain m where
    m: "py_float (interp E) (dict_get raw ''Measurement Of Each Item'' (PInt 0)) = Inr m" by auto
  from fl [of "''Total Units Ordered''"] obtain t where
    t: "py_float (interp E) (dict_get raw ''Total Units Ordered'' (PInt 0)) = Inr t" by auto
  from fl [of "''Case Price''"] obtain c where
    c: "py_float (interp E) (dict_get raw ''Case Price'' (PInt 0)) = Inr c" by auto
  from fl [of "''Cost of a Unit''"] obtain u where
    u: "py_float (interp E) (dict_get raw ''Cost of a Unit'' (PInt 0)) = Inr u" by auto
  from a have keys: "map_of itemdata ''userId'' = Some user_id"
    "map_of itemdata ''supplier'' = Some supplier"
    "map_of itemdata ''invoice_id'' = Some invoice_id"
    "map_of itemdata ''invoice_number'' = Some invoice_number"
    by simp_all
  from make_processed_item_returns [OF raw keys q m t c u]
  show "\<exists>p. make_processed_item (interp E) itemdata = Inr p" by (rule exI)
qed

section \<open>The pipeline at the example item\<close>

lemma make_example:
  "make_processed_item example_builtins (example_itemdata (PInt 24)) = Inr example_processed"
  by (simp add: make_processed_item_def example_itemdata_def example_raw_item_def
        example_builtins_def subscript_def py_get_def get_float_def ebind_def
        example_processed_def float_int_limit_def)

lemma build_std_example:
  "build_standardize_prompt example_builtins name [] (PStr ''Dry Grocery'')
     = Inr (standardize_prompt example_builtins [] example_rules name)"
  by (simp add: build_standardize_prompt_def training_examples_def category_rules_of_def
        category_specific_rules_def ebind_def example_rules_def)

lemma build_eval_example:
  "build_evaluate_prompt example_builtins sn name (PStr ''Dry Grocery'') []
     = Inr (evaluate_prompt example_builtins sn name example_rules [])"
  by (simp add: build_evaluate_prompt_def training_examples_def category_rules_of_def
        category_specific_rules_def ebind_def example_rules_def)

lemma std_example:
  "standardize_item_name (example_client (Inr (Some a0) # rest)) example_builtins []
      name [] (PStr ''Dry Grocery'')
   = (Inr (PStr (py_strip a0)),
      [standardize_request (standardize_prompt example_builtins [] example_rules name)])"
  by (simp add: standardize_item_name_def build_std_example chat_create_def example_client_def
        ebind_def strip_content_def)

lemma eval_example:
  "length sent < length answers \<Longrightarrow> answers ! length sent = Inr (Some a) \<Longrightarrow>
   evaluate_and_correct_item_name (example_client answers) example_builtins sent
      sn name (PStr ''Dry Grocery'') []
   = (py_strip a,
      sent @ [evaluate_request (evaluate_prompt example_builtins sn name example_rules [])])"
  by (simp add: evaluate_and_correct_item_name_def build_eval_example chat_create_def
        example_client_def ebind_def strip_content_def)

lemma strip1: "py_strip ''Ketchup'' = ''Ketchup''" "py_strip ''I cannot help'' = ''I cannot help''"
   "py_strip ''Final corrected name:'' = ''Final corrected name:''"
  by (simp_all add: py_strip_def py_isspace_def)

lemma ext1: "extract_final_name (PStr ''I cannot help'') = None"
   "extract_final_name (PStr ''Final corrected name:'') = Some []"
  by (simp_all add: extract_final_name_def startswith_def py_lower_def lower_char_def
        py_isupper_def split_once_def index_def ebind_def py_strip_def py_isspace_def)

lemma sub_example:
  "subscript example_processed ''itemName'' = Inr (PStr ''Heinz Ketchup'')"
  "subscript example_processed ''productCategory'' = Inr (PStr ''Dry Grocery'')"
  by (simp_all add: subscript_def example_processed_def)

lemma run_cex:
  "process_single_item
     (example_env [Inr (Some ''Ketchup''), Inr (Some ''I cannot help''),
                   Inr (Some ''Final corrected name:'')])
     (example_itemdata (PInt 24))
   = (Some example_processed, example_requests (PStr ''Ketchup'') PNone)"
  by (simp add: process_single_item_def process_body_def example_env_def make_example
        ebind_def sub_example
        std_example eval_example strip1 ext1 opt_val_def example_requests_def Let_def)

lemma evaluate_prompt_name:
  "evaluate_prompt B a name rules exs = evaluate_prompt B b name rules exs \<longleftrightarrow> py_str B a = py_str B b"
  by (simp add: evaluate_prompt_def)

lemma no_fcn: "map_of example_processed ''final_corrected_name'' = None"
  by (simp add: example_processed_def)

lemma format_item_name:
  assumes "format_storage_item B now bn (PDict r) = Inr s"
  shows "map_of s ''Inventory Item Name''
           = Some (dict_get r ''final_corrected_name'' (dict_get r ''itemName'' (PStr [])))"
  using assms unfolding format_storage_item_def pyval.case ebind_Inr_iff
  by (elim exE conjE) auto

lemma processed_names:
  assumes "make_processed_item B itemdata = Inr p" "subscript p ''itemName'' = Inr name"
  shows "map_of p ''final_corrected_name'' = None \<and> dict_get p ''itemName'' d = name"
  using make_processed_item_shape [OF assms(1)] assms(2)
  by (auto simp: subscript_def dict_get_def)

text \<open>
  Claim C1, as stated, fails twice at one run. The first evaluation answer has no
  \<open>Final corrected name:\<close> line, so the first extraction gives \<open>None\<close>; the second round is
  then invoked on \<open>None\<close> (its prompt reads \<open>Standardized name: None\<close>), not on the
  standardized name \<open>Ketchup\<close>. The second answer is the bare label, so the second extraction
  succeeds with the empty string, and the item still carries no corrected name.
\<close>

theorem second_round_counterexample:
  "process_single_item
     (example_env [Inr (Some ''Ketchup''), Inr (Some ''I cannot help''),
                   Inr (Some ''Final corrected name:'')])
     (example_itemdata (PInt 24))
   = (Some example_processed, example_requests (PStr ''Ketchup'') PNone)
   \<and> extract_final_name (PStr ''I cannot help'') = None
   \<and> example_requests (PStr ''Ketchup'') PNone \<noteq> example_requests (PStr ''Ketchup'') (PStr ''Ketchup'')
   \<and> extract_final_name (PStr ''Final corrected name:'') = Some []
   \<and> map_of example_processed ''final_corrected_name'' = None"
  by (simp add: run_cex ext1 no_fcn example_requests_def evaluate_request_def evaluate_prompt_name)

text \<open>
  Claim C1, amended. When the first extraction succeeds with \<open>n1\<close>, the second correction
  round is invoked on \<open>n1\<close>; the item returned carries the second extraction result as
  \<open>final_corrected_name\<close> when that result is present and not the empty string, and carries no
  corrected name otherwise; at storage formatting \<open>Inventory Item Name\<close> is the corrected name
  when the item carries one and the original item name otherwise.
\<close>

theorem two_round_pipeline:
  assumes "new_client E = Inr cl"
    and "make_processed_item (interp E) itemdata = Inr p"
    and "subscript p ''itemName'' = Inr name"
    and "subscript p ''productCategory'' = Inr category"
    and "standardize_item_name cl (interp E) [] name (training E) category = (Inr s0, sent1)"
    and "evaluate_and_correct_item_name cl (interp E) sent1 s0 name category (training E)
           = (e1, sent2)"
    and "extract_final_name (PStr e1) = Some n1"
    and "evaluate_and_correct_item_name cl (interp E) sent2 (PStr n1) name category (training E)
           = (e2, sent3)"
  shows "process_single_item E itemdata =
           (Some (case extract_final_name (PStr e2) of
                    None \<Rightarrow> p
                  | Some n2 \<Rightarrow>
                      if n2 = [] then p else AList.update ''final_corrected_name'' (PStr n2) p),
            sent3)
       \<and> (\<forall>r s. fst (process_single_item E itemdata) = Some r
              \<and> format_storage_item B now bn (PDict r) = Inr s \<longrightarrow>
            map_of s ''Inventory Item Name'' =
              Some (case extract_final_name (PStr e2) of
                      None \<Rightarrow> name
                    | Some n2 \<Rightarrow> if n2 = [] then name else PStr n2))"
proof -
  have run: "process_single_item E itemdata =
           (Some (case extract_final_name (PStr e2) of
                    None \<Rightarrow> p
                  | Some n2 \<Rightarrow>
                      if n2 = [] then p else AList.update ''final_corrected_name'' (PStr n2) p),
            sent3)"
    unfolding process_single_item_def process_body_def
    by (simp add: assms ebind_def Let_def opt_val_def split: option.splits)
  from processed_names [OF assms(2,3)]
  have nf: "map_of p ''final_corrected_name'' = None" and nm: "\<And>d. dict_get p ''itemName'' d = name"
    by blast+
  have "map_of s ''Inventory Item Name'' =
              Some (case extract_final_name (PStr e2) of
                      None \<Rightarrow> name
                    | Some n2 \<Rightarrow> if n2 = [] then name else PStr n2)"
    if r: "fst (process_single_item E itemdata) = Some r"
      and s: "format_storage_item B now bn (PDict r) = Inr s" for r s
  proof (cases "extract_final_name (PStr e2)")
    case None
    with r run have "r = p" by simp
    with format_item_name [OF s] nf nm None show ?thesis by (simp add: dict_get_def)
  next
    case (Some n2)
    show ?thesis
    proof (cases "n2 = []")
      case True
      with r run Some have "r = p" by simp
      with format_item_name [OF s] nf nm Some True show ?thesis by (simp add: dict_get_def)
    next
      case False
      with r run Some have "r = AList.update ''final_corrected_name'' (PStr n2) p" by simp
      with format_item_name [OF s] Some False show ?thesis
        by (simp add: dict_get_def update_conv')
    qed
  qed
  with run show ?thesis by blast
qed

theorem two_round_pipeline_witness:
  "process_single_item
     (example_env [Inr (Some ''Ketchup''), Inr (Some ''Final corrected name: Ketchup''),
                   Inr (Some ''Final corrected name: Ketchup, Tomato'')])
     (example_itemdata (PInt 24))
   = (Some (AList.update ''final_corrected_name'' (PStr ''Ketchup, Tomato'') example_processed),
      example_requests (PStr ''Ketchup'') (PStr ''Ketchup''))"
proof -
  let ?A = "[Inr (Some ''Ketchup''), Inr (Some ''Final corrected name: Ketchup''),
             Inr (Some ''Final corrected name: Ketchup, Tomato'')]"
  let ?E = "example_env ?A"
  let ?rq0 = "standardize_request
                (standardize_prompt example_builtins [] example_rules (PStr ''Heinz Ketchup''))"
  let ?rq1 = "evaluate_request
                (evaluate_prompt example_builtins (PStr ''Ketchup'') (PStr ''Heinz Ketchup'')
                   example_rules [])"
  have st: "py_strip ''Ketchup'' = ''Ketchup''"
    "py_strip ''Final corrected name: Ketchup'' = ''Final corrected name: Ketchup''"
    "py_strip ''Final corrected name: Ketchup, Tomato'' = ''Final corrected name: Ketchup, Tomato''"
    by (simp_all add: py_strip_def py_isspace_def)
  have ex: "extract_final_name (PStr ''Final corrected name: Ketchup'') = Some ''Ketchup''"
    "extract_final_name (PStr ''Final corrected name: Ketchup, Tomato'') = Some ''Ketchup, Tomato''"
    by (simp_all add: extract_final_name_def startswith_def py_lower_def lower_char_def
          py_isupper_def split_once_def index_def ebind_def py_strip_def py_isspace_def)
  have h1: "new_client ?E = Inr (example_client ?A)" by (simp add: example_env_def)
  have h2: "make_processed_item (interp ?E) (example_itemdata (PInt 24)) = Inr example_processed"
    by (simp add: example_env_def make_example)
  have h5: "standardize_item_name (example_client ?A) (interp ?E) [] (PStr ''Heinz Ketchup'')
              (training ?E) (PStr ''Dry Grocery'') = (Inr (PStr ''Ketchup''), [?rq0])"
    by (simp add: example_env_def std_example st)
  have h6: "evaluate_and_correct_item_name (example_client ?A) (interp ?E) [?rq0] (PStr ''Ketchup'')
              (PStr ''Heinz Ketchup'') (PStr ''Dry Grocery'') (training ?E)
            = (''Final corrected name: Ketchup'', [?rq0, ?rq1])"
    by (simp add: example_env_def eval_example st)
  have h8: "evaluate_and_correct_item_name (example_client ?A) (interp ?E) [?rq0, ?rq1]
              (PStr ''Ketchup'') (PStr ''Heinz Ketchup'') (PStr ''Dry Grocery'') (training ?E)
            = (''Final corrected name: Ketchup, Tomato'', [?rq0, ?rq1, ?rq1])"
    by (simp add: example_env_def eval_example st)
  from two_round_pipeline [OF h1 h2 sub_example(1) sub_example(2) h5 h6 ex(1) h8]
  show ?thesis by (simp add: ex example_requests_def)
qed

text \<open>
  Witness of claim C9, on runs of the activity. With \<open>Case Price\<close> \<open>'abc'\<close> the item is dropped
  and no request is sent. With \<open>Case Price\<close> \<open>24\<close> the activity returns an item in which the
  absent \<open>Cost of a Unit\<close> is \<open>0.0\<close>, the present \<open>Case Price\<close> is \<open>24.0\<close>, the absent
  \<open>Priced By\<close> is the empty string and the present \<open>Item Number\<close> is kept.
\<close>

theorem process_single_item_defaults_witness:
  "process_single_item (example_env []) (example_itemdata (PStr ''abc'')) = (None, [])
   \<and> (\<exists>p sent.
         process_single_item
           (example_env [Inr (Some ''Ketchup''), Inr (Some ''I cannot help''),
                         Inr (Some ''Final corrected name:'')])
           (example_itemdata (PInt 24)) = (Some p, sent)
       \<and> map_of p ''costOfUnit'' = Some (PFloat (Fin 0))
       \<and> map_of p ''casePrice'' = Some (PFloat (Fin 24))
       \<and> map_of p ''pricedBy'' = Some (PStr [])
       \<and> map_of p ''itemNumber'' = Some (PStr ''K-12''))
   \<and> (\<exists>p. make_processed_item example_builtins (example_itemdata (PInt 24)) = Inr p)"
proof -
  let ?E = "example_env [Inr (Some ''Ketchup''), Inr (Some ''I cannot help''),
                         Inr (Some ''Final corrected name:'')]"
  let ?raw = "\<lambda>c. [(''Item Name'', PStr ''Heinz Ketchup''),
                   (''Item Number'', PStr ''K-12''),
                   (''Quantity In a Case'', PInt 6),
                   (''Measurement Of Each Item'', PInt 32),
                   (''Measured In'', PStr ''oz''),
                   (''Total Units Ordered'', PInt 12),
                   (''Case Price'', c),
                   (''Product Category'', PStr ''Dry Grocery'')]"
  have raw: "map_of (example_itemdata c) ''item'' = Some (PDict (?raw c))" for c
    by (simp add: example_itemdata_def example_raw_item_def)
  have keys: "map_of (example_itemdata c) ''userId'' = Some (PStr ''u1'')"
    "map_of (example_itemdata c) ''supplier'' = Some (PStr ''Acme Foods'')"
    "map_of (example_itemdata c) ''invoice_id'' = Some (PStr ''inv-1'')"
    "map_of (example_itemdata c) ''invoice_number'' = Some (PStr ''1001'')" for c
    by (simp_all add: example_itemdata_def)
  have bad: "py_float (interp (example_env [])) (PStr ''abc'')
               = Inl (PyExn ''ValueError''
                        (''could not convert string to float: '' @ [CHR 0x27] @ ''abc'' @ [CHR 0x27]))"
    by (simp add: example_env_def example_builtins_def)
  have fl: "py_float (interp ?E) (PInt 6) = Inr (Fin 6)"
    "py_float (interp ?E) (PInt 32) = Inr (Fin 32)"
    "py_float (interp ?E) (PInt 12) = Inr (Fin 12)"
    "py_float (interp ?E) (PInt 24) = Inr (Fin 24)"
    by (simp_all add: float_int_limit_def)
  have int: "interp ?E = example_builtins" by (simp add: example_env_def)
  have a: "process_single_item (example_env []) (example_itemdata (PStr ''abc'')) = (None, [])"
    using process_single_item_defaults
      [OF raw [of "PStr ''abc''"],
       where field = "''Case Price''" and key = "''casePrice''"
         and tfield = "''Priced By''" and tkey = "''pricedBy''" and dflt = "PStr []"
         and bad = "PStr ''abc''" and E = "example_env []"] bad
    by simp
  have b: "map_of example_processed ''costOfUnit'' = Some (PFloat (Fin 0))
         \<and> map_of example_processed ''pricedBy'' = Some (PStr [])"
    using process_single_item_defaults
      [OF raw [of "PInt 24"],
       where field = "''Cost of a Unit''" and key = "''costOfUnit''"
         and tfield = "''Priced By''" and tkey = "''pricedBy''" and dflt = "PStr []"
         and p' = example_processed and E = ?E] run_cex
    by simp
  have c: "map_of example_processed ''casePrice'' = Some (PFloat (Fin 24))
         \<and> map_of example_processed ''itemNumber'' = Some (PStr ''K-12'')"
    using process_single_item_defaults
      [OF raw [of "PInt 24"],
       where field = "''Case Price''" and key = "''casePrice''"
         and tfield = "''Item Number''" and tkey = "''itemNumber''" and dflt = "PStr []"
         and p' = example_processed and E = ?E] run_cex fl(4)
    by (simp del: py_float.simps)
  have d: "\<exists>p. make_processed_item example_builtins (example_itemdata (PInt 24)) = Inr p"
    using process_single_item_defaults
      [OF raw [of "PInt 24"],
       where field = "''Case Price''" and key = "''casePrice''"
         and tfield = "''Item Number''" and tkey = "''itemNumber''" and dflt = "PStr []"
         and E = ?E and user_id = "PStr ''u1''" and supplier = "PStr ''Acme Foods''"
         and invoice_id = "PStr ''inv-1''" and invoice_number = "PStr ''1001''"]
      keys [of "PInt 24"] fl
    by (simp add: int del: py_float.simps)
  from run_cex b c
  have "\<exists>p sent. process_single_item ?E (example_itemdata (PInt 24)) = (Some p, sent)
       \<and> map_of p ''costOfUnit'' = Some (PFloat (Fin 0))
       \<and> map_of p ''casePrice'' = Some (PFloat (Fin 24))
       \<and> map_of p ''pricedBy'' = Some (PStr [])
       \<and> map_of p ''itemNumber'' = Some (PStr ''K-12'')"
    by blast
  with a d show ?thesis by blast
qed

section \<open>Failure of the evaluator\<close>

lemma split_on_append:
  "c \<notin> set a \<Longrightarrow>
   split_on c (a @ b) = (a @ hd (split_on c b)) # tl (split_on c b)"
proof (induction a)
  case Nil
  then show ?case using split_on_nonempty [of c b] by simp
next
  case (Cons x a)
  then show ?case by auto
qed

lemma sentinel_extract:
  assumes "\<forall>l\<in>set (tl (split_on CHR ''\<newline>'' d)). \<not> startswith (py_lower l) ''final corrected name:''"
  shows "extract_final_name (PStr (''Error: '' @ d)) = None"
proof -
  have nl: "CHR ''\<newline>'' \<notin> set ''Error: ''" by simp
  have first: "\<not> startswith (py_lower (''Error: '' @ hd (split_on CHR ''\<newline>'' d))) ''final corrected name:''"
    by (rule sentinel_first_line)
  have "find (\<lambda>l. startswith (py_lower l) ''final corrected name:'')
          (split_on CHR ''\<newline>'' (''Error: '' @ d)) = None"
    unfolding split_on_append [OF nl] find_None_iff using first assms by auto
  then show ?thesis
    by (simp add: extract_final_name_def scan_final_name_find)
qed

lemma evaluate_failure:
  assumes "build_evaluate_prompt B sn name cat td = Inr prompt"
    and "cl (length sent) (evaluate_request prompt) = Inl e"
  shows "evaluate_and_correct_item_name cl B sent sn name cat td
           = (''Error: '' @ exn_str e, sent @ [evaluate_request prompt])"
  by (simp add: evaluate_and_correct_item_name_def assms chat_create_def ebind_def)

text \<open>
  Claim C8, as stated, fails in its last part: the returned sentinel is not always
  unparsable. The failure detail is the text of the exception; when that text has a later
  line that begins with the label, the extractor returns the rest of that line as a name.
\<close>

theorem error_sentinel_counterexample:
  "evaluate_and_correct_item_name
     (example_client [Inl (PyExn ''APIError'' ''bad gateway\<newline>Final corrected name: Oops'')])
     example_builtins [] (PStr ''Ketchup'') (PStr ''Heinz Ketchup'') (PStr ''Dry Grocery'') []
   = (''Error: bad gateway\<newline>Final corrected name: Oops'',
      [evaluate_request (evaluate_prompt example_builtins (PStr ''Ketchup'') (PStr ''Heinz Ketchup'') example_rules [])])
   \<and> extract_final_name (PStr ''Error: bad gateway\<newline>Final corrected name: Oops'') = Some ''Oops''"
proof -
  have "extract_final_name (PStr ''Error: bad gateway\<newline>Final corrected name: Oops'') = Some ''Oops''"
    by (simp add: extract_final_name_def startswith_def py_lower_def lower_char_def
          py_isupper_def split_once_def index_def ebind_def py_strip_def py_isspace_def)
  moreover have "evaluate_and_correct_item_name
     (example_client [Inl (PyExn ''APIError'' ''bad gateway\<newline>Final corrected name: Oops'')])
     example_builtins [] (PStr ''Ketchup'') (PStr ''Heinz Ketchup'') (PStr ''Dry Grocery'') []
   = (''Error: bad gateway\<newline>Final corrected name: Oops'',
      [evaluate_request (evaluate_prompt example_builtins (PStr ''Ketchup'') (PStr ''Heinz Ketchup'') example_rules [])])"
    using evaluate_failure [OF build_eval_example, of _ "[]"]
    by (simp add: example_client_def)
  ultimately show ?thesis by simp
qed

text \<open>
  Claim C8, amended. When the evaluator's request to the language model raises \<open>e\<close>,
  \<open>evaluate_and_correct_item_name\<close> returns the string \<open>Error: \<close> followed by \<open>str(e)\<close>; it
  raises nothing. The extractor then returns \<open>None\<close> on that string whenever no line of
  \<open>str(e)\<close> after its first begins, in lower case, with \<open>final corrected name:\<close>; this covers
  every one-line failure detail.
\<close>

theorem evaluate_failure_sentinel:
  "build_evaluate_prompt B sn name cat td = Inr prompt
   \<and> cl (length sent) (evaluate_request prompt) = Inl e \<longrightarrow>
     evaluate_and_correct_item_name cl B sent sn name cat td
       = (''Error: '' @ exn_str e, sent @ [evaluate_request prompt])
     \<and> ((\<forall>l\<in>set (tl (split_on CHR ''\<newline>'' (exn_str e))).
            \<not> startswith (py_lower l) ''final corrected name:'')
          \<longrightarrow> extract_final_name (PStr (''Error: '' @ exn_str e)) = None)"
  using evaluate_failure sentinel_extract by blast

theorem evaluate_failure_sentinel_witness:
  "evaluate_and_correct_item_name (example_client []) example_builtins []
     (PStr ''Ketchup'') (PStr ''Heinz Ketchup'') (PStr ''Dry Grocery'') []
   = (''Error: Connection error.'',
      [evaluate_request
         (evaluate_prompt example_builtins (PStr ''Ketchup'') (PStr ''Heinz Ketchup'')
            example_rules [])])
   \<and> extract_final_name (PStr ''Error: Connection error.'') = None"
  using evaluate_failure_sentinel
    [where B = example_builtins and sn = "PStr ''Ketchup''" and name = "PStr ''Heinz Ketchup''"
       and cat = "PStr ''Dry Grocery''" and td = "[]" and cl = "example_client []"
       and sent = "[]" and e = "PyExn ''APIConnectionError'' ''Connection error.''"
       and prompt = "evaluate_prompt example_builtins (PStr ''Ketchup'') (PStr ''Heinz Ketchup'')
            example_rules []"]
  by (simp add: build_eval_example example_client_def)

section \<open>The storage activity\<close>

subsection \<open>The loop computes the accepted records and the rejection messages\<close>

lemma append_item_list:
  "map_of doc ''items'' = Some (PList xs) \<Longrightarrow>
   append_item doc s = Inr (AList.update ''items'' (PList (xs @ [PDict s])) doc)"
  by (simp add: append_item_def subscript_def ebind_def)

lemma store_loop_list:
  "map_of doc ''items'' = Some (PList xs) \<Longrightarrow>
   store_loop B now bn uid idx batch (doc, n, errs) =
     (AList.update ''items'' (PList (xs @ accepted_records B now bn idx batch)) doc,
      n + length (accepted_records B now bn idx batch),
      errs @ rejection_errors B now bn uid idx batch)"
proof (induction batch arbitrary: idx doc n errs xs)
  case Nil
  then show ?case by (simp add: update_triv)
next
  case (Cons item rest)
  show ?case
  proof (cases "truthy item")
    case False
    with Cons show ?thesis by (simp add: accepted_def rejected_def)
  next
    case tr: True
    show ?thesis
    proof (cases "format_storage_item B (now idx) bn item")
      case (Inl e)
      with tr Cons.IH [OF Cons.prems] show ?thesis
        by (simp add: accepted_def rejected_def ebind_def)
    next
      case (Inr s)
      show ?thesis
      proof (cases "validate_storage_item s")
        case False
        with tr Inr Cons.IH [OF Cons.prems] show ?thesis
          by (simp add: accepted_def rejected_def ebind_def)
      next
        case True
        let ?doc' = "AList.update ''items'' (PList (xs @ [PDict s])) doc"
        have d': "map_of ?doc' ''items'' = Some (PList (xs @ [PDict s]))"
          by (simp add: update_conv')
        from tr Inr True Cons.IH [OF d'] append_item_list [OF Cons.prems] show ?thesis
          by (simp add: accepted_def rejected_def ebind_def)
      qed
    qed
  qed
qed

lemma batch_partition:
  "length (accepted_records B now bn idx batch) + length (rejection_errors B now bn uid idx batch)
     + length (filter (\<lambda>item. \<not> truthy item) batch) = length batch"
  by (induction batch arbitrary: idx)
     (auto simp: accepted_def rejected_def split: sum.splits)

lemma accepted_count:
  "length (accepted_records B now bn idx batch)
     = length (filter (\<lambda>(i, item). accepted B now bn i item) (enumerate idx batch))"
  by (induction batch arbitrary: idx) (auto simp: accepted_def split: sum.splits)

lemma rejected_count:
  "length (rejection_errors B now bn uid idx batch)
     = length (filter (\<lambda>(i, item). rejected B now bn i item) (enumerate idx batch))"
  by (induction batch arbitrary: idx) (auto simp: rejected_def accepted_def split: sum.splits)

lemma accepted_le: "length (accepted_records B now bn idx batch) \<le> length batch"
  using batch_partition [of B now bn idx batch "[]"] by linarith

lemma accepted_all:
  "length (accepted_records B now bn idx batch) = length batch
     \<longleftrightarrow> (\<forall>(i, item)\<in>set (enumerate idx batch). accepted B now bn i item)"
proof (induction batch arbitrary: idx)
  case Nil
  show ?case by simp
next
  case (Cons item rest)
  show ?case
  proof (cases "accepted B now bn idx item")
    case True
    then obtain s where "format_storage_item B (now idx) bn item = Inr s"
      by (auto simp: accepted_def split: sum.splits)
    with True Cons [of "Suc idx"] show ?thesis by simp
  next
    case False
    with accepted_le [of B now bn "Suc idx" rest] show ?thesis by simp
  qed
qed

lemma accepted_some:
  "0 < length (accepted_records B now bn idx batch)
     \<longleftrightarrow> (\<exists>(i, item)\<in>set (enumerate idx batch). accepted B now bn i item)"
  unfolding accepted_count length_greater_0_conv filter_empty_conv by blast

lemma accepted_records_valid:
  "y \<in> set (accepted_records B now bn idx batch) \<Longrightarrow> \<exists>s. y = PDict s \<and> validate_storage_item s"
proof (induction batch arbitrary: idx)
  case Nil
  then show ?case by simp
next
  case (Cons item rest)
  show ?case
  proof (cases "y \<in> set (accepted_records B now bn (Suc idx) rest)")
    case True
    then show ?thesis by (rule Cons.IH)
  next
    case False
    with Cons.prems have acc: "accepted B now bn idx item"
      by (cases "accepted B now bn idx item") auto
    then obtain s where s: "format_storage_item B (now idx) bn item = Inr s" "validate_storage_item s"
      by (auto simp: accepted_def split: sum.splits)
    with acc False Cons.prems have "y = PDict s" by simp
    with s show ?thesis by blast
  qed
qed

subsection \<open>A run of the activity\<close>

lemma has_item_listD: "has_item_list d \<Longrightarrow> \<exists>xs. map_of d ''items'' = Some (PList xs)"
  by (auto simp: has_item_list_def split: option.splits pyval.splits)

lemma count_consistent_item_list: "count_consistent d \<Longrightarrow> has_item_list d"
  by (auto simp: has_item_list_def count_consistent_def split: option.splits pyval.splits)

lemma query_items_subset: "set (query_items docs uid) \<subseteq> set docs"
  by (auto simp: query_items_def)

lemma initial_doc_items:
  assumes docs: "list_all has_item_list docs"
    and d0: "initial_doc SE sd (query_items docs uid) = Inr d0"
  shows "\<exists>xs. map_of d0 ''items'' = Some (PList xs)"
proof (cases "query_items docs uid")
  case Nil
  with d0 show ?thesis
    by (auto simp: initial_doc_def ebind_def split: sum.splits list.splits)
next
  case (Cons d ds)
  then have "d \<in> set (query_items docs uid)" by simp
  with query_items_subset have "d \<in> set docs" by blast
  with docs have "has_item_list d" by (simp add: list_all_iff)
  moreover from Cons d0 have "d0 = d" by (simp add: initial_doc_def)
  ultimately show ?thesis by (auto dest: has_item_listD)
qed

lemma initial_doc_id:
  assumes d0: "initial_doc SE sd (query_items docs (sd_user_id sd)) = Inr d0"
  shows "map_of d0 ''id'' = Some (PStr (sd_user_id sd))"
proof (cases "query_items docs (sd_user_id sd)")
  case Nil
  with d0 show ?thesis
    by (auto simp: initial_doc_def ebind_def split: sum.splits list.splits)
next
  case (Cons d ds)
  then have "d \<in> set (query_items docs (sd_user_id sd))" by simp
  then have "map_of d ''id'' = Some (PStr (sd_user_id sd))" by (simp add: query_items_def)
  moreover from Cons d0 have "d0 = d" by (simp add: initial_doc_def)
  ultimately show ?thesis by simp
qed

lemma initial_doc_returns:
  assumes "list_all is_dict (sd_items sd)"
  shows "\<exists>d0. initial_doc SE sd existing = Inr d0"
proof (cases existing)
  case Nil
  show ?thesis
  proof (cases "sd_items sd")
    case Nil': Nil
    with Nil show ?thesis by (simp add: initial_doc_def ebind_def)
  next
    case (Cons first others)
    with assms obtain kvs where "first = PDict kvs"
      by (cases first) (simp_all add: is_dict_def)
    with Nil Cons show ?thesis by (simp add: initial_doc_def ebind_def py_get_def)
  qed
next
  case (Cons d ds)
  then show ?thesis by (simp add: initial_doc_def)
qed

lemma activity_run:
  assumes "store_items_activity SE sd docs = (Inr res, docs', tr)"
  shows "\<exists>d0 d1 n errs v k.
           initial_doc SE sd (query_items docs (sd_user_id sd)) = Inr d0
         \<and> store_loop (st_interp SE) (now_item SE) (batch_of sd) (sd_user_id sd) 0 (sd_items sd)
              (d0, 0, []) = (d1, n, errs)
         \<and> map_of d1 ''items'' = Some v \<and> py_len v = Inr k
         \<and> res = batch_result sd (batch_of sd) n errs
         \<and> docs' = upsert_doc (AList.update ''itemCount'' (PInt (int k))
                                 (AList.update ''timestamp'' (PStr (now_meta SE)) d1)) docs"
  using assms unfolding store_items_activity_def batch_of_def Let_def
  by (auto simp: ebind_Inr_iff subscript_def update_conv'
           split: option.splits sum.splits prod.splits simp del: store_loop.simps)

lemma activity_run_list:
  assumes docs: "list_all has_item_list docs"
    and run: "store_items_activity SE sd docs = (Inr res, docs', tr)"
  shows "\<exists>d0 xs.
           initial_doc SE sd (query_items docs (sd_user_id sd)) = Inr d0
         \<and> map_of d0 ''items'' = Some (PList xs)
         \<and> res = batch_result sd (batch_of sd)
                   (length (accepted_records (st_interp SE) (now_item SE) (batch_of sd) 0 (sd_items sd)))
                   (rejection_errors (st_interp SE) (now_item SE) (batch_of sd) (sd_user_id sd) 0
                      (sd_items sd))
         \<and> docs' = upsert_doc
                     (AList.update ''itemCount''
                        (PInt (int (length (xs @ accepted_records (st_interp SE) (now_item SE)
                                                   (batch_of sd) 0 (sd_items sd)))))
                        (AList.update ''timestamp'' (PStr (now_meta SE))
                           (AList.update ''items''
                              (PList (xs @ accepted_records (st_interp SE) (now_item SE)
                                              (batch_of sd) 0 (sd_items sd))) d0))) docs"
proof -
  from activity_run [OF run] obtain d0 d1 n errs v k where
    d0: "initial_doc SE sd (query_items docs (sd_user_id sd)) = Inr d0"
    and loop: "store_loop (st_interp SE) (now_item SE) (batch_of sd) (sd_user_id sd) 0 (sd_items sd)
                 (d0, 0, []) = (d1, n, errs)"
    and v: "map_of d1 ''items'' = Some v" and k: "py_len v = Inr k"
    and res: "res = batch_result sd (batch_of sd) n errs"
    and docs': "docs' = upsert_doc (AList.update ''itemCount'' (PInt (int k))
                                 (AList.update ''timestamp'' (PStr (now_meta SE)) d1)) docs"
    by blast
  from initial_doc_items [OF docs d0] obtain xs where xs: "map_of d0 ''items'' = Some (PList xs)" ..
  note sl = store_loop_list [OF xs, of "st_interp SE" "now_item SE" "batch_of sd" "sd_user_id sd" 0
               "sd_items sd" 0 "[]"]
  from loop sl have d1: "d1 = AList.update ''items''
                               (PList (xs @ accepted_records (st_interp SE) (now_item SE)
                                              (batch_of sd) 0 (sd_items sd))) d0"
    and n: "n = length (accepted_records (st_interp SE) (now_item SE) (batch_of sd) 0 (sd_items sd))"
    and errs: "errs = rejection_errors (st_interp SE) (now_item SE) (batch_of sd) (sd_user_id sd) 0
                        (sd_items sd)"
    by simp_all
  from v d1 have "v = PList (xs @ accepted_records (st_interp SE) (now_item SE)
                                        (batch_of sd) 0 (sd_items sd))"
    by (simp add: update_conv')
  with k have k': "k = length (xs @ accepted_records (st_interp SE) (now_item SE)
                                        (batch_of sd) 0 (sd_items sd))"
    by simp
  from d0 xs res docs' show ?thesis unfolding d1 n errs k' by blast
qed

lemma activity_returns:
  assumes docs: "list_all has_item_list docs"
    and q: "query_exn SE = None" and u: "upsert_exn SE 0 = None"
    and items: "list_all is_dict (sd_items sd)"
  shows "\<exists>res docs'. store_items_activity SE sd docs = (Inr res, docs', [Upsert 0])"
proof -
  from initial_doc_returns [OF items] obtain d0 where
    d0: "initial_doc SE sd (query_items docs (sd_user_id sd)) = Inr d0" by blast
  from initial_doc_items [OF docs d0] obtain xs where xs: "map_of d0 ''items'' = Some (PList xs)" ..
  note sl = store_loop_list [OF xs, of "st_interp SE" "now_item SE" _ "sd_user_id sd" 0
               "sd_items sd" 0 "[]"]
  show ?thesis
    unfolding store_items_activity_def
    by (simp add: Let_def q d0 sl subscript_def update_conv' ebind_def
          retry_first_success [of "upsert_exn SE", OF u] del: store_loop.simps)
qed

subsection \<open>The batch result\<close>

lemma batch_result_status:
  "batch_result sd bn (length (accepted_records B now bn 0 (sd_items sd))) errs
     = [(''status'',
           PStr (if \<forall>(i, item)\<in>set (enumerate 0 (sd_items sd)). accepted B now bn i item
                 then ''success''
                 else if \<exists>(i, item)\<in>set (enumerate 0 (sd_items sd)). accepted B now bn i item
                 then ''partial_failure'' else ''failure'')),
        (''batch'', bn),
        (''stored_count'',
           PInt (int (length (filter (\<lambda>(i, item). accepted B now bn i item)
                                (enumerate 0 (sd_items sd)))))),
        (''total_items'', PInt (int (length (sd_items sd)))),
        (''errors'', PList (map PStr errs)),
        (''user_id'', PStr (sd_user_id sd))]"
  unfolding batch_result_def accepted_all accepted_some
  by (simp add: accepted_count)

lemma truthy_without_number: "truthy item_without_number"
  by (simp add: item_without_number_def example_item_def)

lemma format_without_number:
  "format_storage_item example_builtins ''2024-01-01T00:00:01'' (PInt 1) item_without_number
     = Inr ((example_record (PFloat (Fin 24))) [5 := (''Item Number'', PStr [])])"
  by (simp add: format_storage_item_def item_without_number_def example_item_def
        example_record_def dict_get_def ebind_def extract_brand_def brand_of_str_def index_def
        py_isspace_def py_strip_def py_isupper_def py_replace_def)

lemma validate_without_number:
  "\<not> validate_storage_item ((example_record (PFloat (Fin 24))) [5 := (''Item Number'', PStr [])])"
  by (simp add: validate_storage_item_def example_record_def required_fields_def dict_get_def)

lemma accepted_complete:
  "accepted example_builtins (\<lambda>idx. ''2024-01-01T00:00:01'') (PInt 1) idx complete_item"
  by (simp add: accepted_def truthy_complete format_complete validate_complete)

lemma rejected_without_number:
  "\<not> accepted example_builtins (\<lambda>idx. ''2024-01-01T00:00:01'') (PInt 1) idx item_without_number"
  by (simp add: accepted_def format_without_number validate_without_number)

lemma example_two_records:
  "accepted_records example_builtins (\<lambda>idx. ''2024-01-01T00:00:01'') (PInt 1) 0
     [complete_item, item_without_number] = [PDict (example_record (PFloat (Fin 24)))]"
  by (simp add: accepted_complete rejected_without_number format_complete)

lemma dec_nat_1: "dec_nat (Suc 0) = ''1''"
  by (simp add: dec_nat.simps)

lemma example_two_errors:
  "rejection_errors example_builtins (\<lambda>idx. ''2024-01-01T00:00:01'') (PInt 1) ''u1'' 0
     [complete_item, item_without_number] = [''Invalid item data for item 1'']"
  by (simp add: rejected_def accepted_complete rejected_without_number truthy_without_number
        format_without_number dec_nat_1)

text \<open>
  Claim C3. Let a container hold only documents whose \<open>items\<close> is a list. A run of the
  activity whose query and first upsert raise nothing, on a batch of dictionaries, returns a
  result. Every result that the activity returns has \<open>status\<close> \<open>success\<close> exactly when every item
  of the batch is accepted (non-empty, formatted without an exception, and passing
  \<open>validate_storage_item\<close>), \<open>partial_failure\<close> when some item but not every item is accepted, and
  \<open>failure\<close> when no item of a non-empty batch is accepted; \<open>stored_count\<close> is the number of
  accepted items, \<open>total_items\<close> the length of the batch, \<open>batch\<close> the batch number, and \<open>errors\<close>
  holds one string for each rejected item, in batch order; the upserted document holds the
  previous records followed by the record of each accepted item. The status of an empty batch
  is \<open>success\<close>. An empty item is skipped and is neither stored nor given an error string.
\<close>

theorem store_items_activity_result:
  assumes docs: "list_all has_item_list docs"
  shows
    "(query_exn SE = None \<and> upsert_exn SE 0 = None \<and> list_all is_dict (sd_items sd)
        \<longrightarrow> (\<exists>res docs'. store_items_activity SE sd docs = (Inr res, docs', [Upsert 0])))
     \<and> (store_items_activity SE sd docs = (Inr res, docs', tr) \<longrightarrow>
          res = [(''status'',
                    PStr (if \<forall>(i, item)\<in>set (enumerate 0 (sd_items sd)).
                               accepted (st_interp SE) (now_item SE) (batch_of sd) i item
                          then ''success''
                          else if \<exists>(i, item)\<in>set (enumerate 0 (sd_items sd)).
                                    accepted (st_interp SE) (now_item SE) (batch_of sd) i item
                          then ''partial_failure'' else ''failure'')),
                 (''batch'', batch_of sd),
                 (''stored_count'',
                    PInt (int (length (filter (\<lambda>(i, item). accepted (st_interp SE) (now_item SE)
                                                           (batch_of sd) i item)
                                         (enumerate 0 (sd_items sd)))))),
                 (''total_items'', PInt (int (length (sd_items sd)))),
                 (''errors'',
                    PList (map PStr (rejection_errors (st_interp SE) (now_item SE) (batch_of sd)
                                       (sd_user_id sd) 0 (sd_items sd)))),
                 (''user_id'', PStr (sd_user_id sd))]
        \<and> length (rejection_errors (st_interp SE) (now_item SE) (batch_of sd) (sd_user_id sd) 0
                    (sd_items sd))
            = length (filter (\<lambda>(i, item). rejected (st_interp SE) (now_item SE) (batch_of sd) i item)
                        (enumerate 0 (sd_items sd)))
        \<and> (\<exists>d0 xs body.
              initial_doc SE sd (query_items docs (sd_user_id sd)) = Inr d0
            \<and> map_of d0 ''items'' = Some (PList xs)
            \<and> map_of body ''items''
                = Some (PList (xs @ accepted_records (st_interp SE) (now_item SE) (batch_of sd) 0
                                      (sd_items sd)))
            \<and> docs' = upsert_doc body docs))"
proof (intro conjI impI)
  assume "query_exn SE = None \<and> upsert_exn SE 0 = None \<and> list_all is_dict (sd_items sd)"
  with activity_returns [OF docs]
  show "\<exists>res docs'. store_items_activity SE sd docs = (Inr res, docs', [Upsert 0])"
    by blast
next
  assume run: "store_items_activity SE sd docs = (Inr res, docs', tr)"
  from activity_run_list [OF docs run]
  show "res = [(''status'',
                    PStr (if \<forall>(i, item)\<in>set (enumerate 0 (sd_items sd)).
                               accepted (st_interp SE) (now_item SE) (batch_of sd) i item
                          then ''success''
                          else if \<exists>(i, item)\<in>set (enumerate 0 (sd_items sd)).
                                    accepted (st_interp SE) (now_item SE) (batch_of sd) i item
                          then ''partial_failure'' else ''failure'')),
                 (''batch'', batch_of sd),
                 (''stored_count'',
                    PInt (int (length (filter (\<lambda>(i, item). accepted (st_interp SE) (now_item SE)
                                                           (batch_of sd) i item)
                                         (enumerate 0 (sd_items sd)))))),
                 (''total_items'', PInt (int (length (sd_items sd)))),
                 (''errors'',
                    PList (map PStr (rejection_errors (st_interp SE) (now_item SE) (batch_of sd)
                                       (sd_user_id sd) 0 (sd_items sd)))),
                 (''user_id'', PStr (sd_user_id sd))]"
    by (auto simp only: batch_result_status)
next
  show "length (rejection_errors (st_interp SE) (now_item SE) (batch_of sd) (sd_user_id sd) 0
                    (sd_items sd))
            = length (filter (\<lambda>(i, item). rejected (st_interp SE) (now_item SE) (batch_of sd) i item)
                        (enumerate 0 (sd_items sd)))"
    by (rule rejected_count)
next
  assume run: "store_items_activity SE sd docs = (Inr res, docs', tr)"
  from activity_run_list [OF docs run] obtain d0 xs where
    d0: "initial_doc SE sd (query_items docs (sd_user_id sd)) = Inr d0"
    and xs: "map_of d0 ''items'' = Some (PList xs)"
    and docs': "docs' = upsert_doc
                     (AList.update ''itemCount''
                        (PInt (int (length (xs @ accepted_records (st_interp SE) (now_item SE)
                                                   (batch_of sd) 0 (sd_items sd)))))
                        (AList.update ''timestamp'' (PStr (now_meta SE))
                           (AList.update ''items''
                              (PList (xs @ accepted_records (st_interp SE) (now_item SE)
                                              (batch_of sd) 0 (sd_items sd))) d0))) docs"
    by blast
  have "map_of (AList.update ''itemCount''
                        (PInt (int (length (xs @ accepted_records (st_interp SE) (now_item SE)
                                                   (batch_of sd) 0 (sd_items sd)))))
                        (AList.update ''timestamp'' (PStr (now_meta SE))
                           (AList.update ''items''
                              (PList (xs @ accepted_records (st_interp SE) (now_item SE)
                                              (batch_of sd) 0 (sd_items sd))) d0))) ''items''
          = Some (PList (xs @ accepted_records (st_interp SE) (now_item SE) (batch_of sd) 0
                                      (sd_items sd)))"
    by (simp add: update_conv')
  with d0 xs docs'
  show "\<exists>d0 xs body.
              initial_doc SE sd (query_items docs (sd_user_id sd)) = Inr d0
            \<and> map_of d0 ''items'' = Some (PList xs)
            \<and> map_of body ''items''
                = Some (PList (xs @ accepted_records (st_interp SE) (now_item SE) (batch_of sd) 0
                                      (sd_items sd)))
            \<and> docs' = upsert_doc body docs"
    by blast
qed

text \<open>
  Witness of claim C3, the scenario of the specification: on an empty container, a batch of a
  complete item and an item without \<open>Item Number\<close> stores one record and returns
  \<open>partial_failure\<close> with \<open>stored_count\<close> 1, \<open>total_items\<close> 2 and one error string. The string
  names the index of the rejected item.
\<close>

theorem store_items_activity_result_witness:
  "\<exists>body. store_items_activity (example_store_env (\<lambda>attempt. None))
            (example_storedata [complete_item, item_without_number]) []
          = (Inr [(''status'', PStr ''partial_failure''),
                  (''batch'', PInt 1),
                  (''stored_count'', PInt 1),
                  (''total_items'', PInt 2),
                  (''errors'', PList [PStr ''Invalid item data for item 1'']),
                  (''user_id'', PStr ''u1'')],
             [body], [Upsert 0])
        \<and> map_of body ''items'' = Some (PList [PDict (example_record (PFloat (Fin 24)))])"
proof -
  let ?SE = "example_store_env (\<lambda>attempt. None)"
  let ?sd = "example_storedata [complete_item, item_without_number]"
  have docs: "list_all has_item_list []" by simp
  have pre: "query_exn ?SE = None \<and> upsert_exn ?SE 0 = None \<and> list_all is_dict (sd_items ?sd)"
    by (simp add: example_store_env_def example_storedata_def is_dict_def complete_item_def
          item_without_number_def example_item_def)
  have sel: "st_interp ?SE = example_builtins" "now_item ?SE = (\<lambda>idx. ''2024-01-01T00:00:01'')"
    "batch_of ?sd = PInt 1" "sd_user_id ?sd = ''u1''"
    "sd_items ?sd = [complete_item, item_without_number]"
    by (simp_all add: example_store_env_def example_storedata_def batch_of_def)
  from store_items_activity_result [OF docs, of ?SE ?sd] pre
  obtain res docs' where run: "store_items_activity ?SE ?sd [] = (Inr res, docs', [Upsert 0])"
    by blast
  from store_items_activity_result [OF docs, of ?SE ?sd res docs' "[Upsert 0]"] run
  have res: "res = [(''status'', PStr ''partial_failure''),
                  (''batch'', PInt 1),
                  (''stored_count'', PInt 1),
                  (''total_items'', PInt 2),
                  (''errors'', PList [PStr ''Invalid item data for item 1'']),
                  (''user_id'', PStr ''u1'')]"
    and "\<exists>d0 xs body. initial_doc ?SE ?sd (query_items [] ''u1'') = Inr d0
            \<and> map_of d0 ''items'' = Some (PList xs)
            \<and> map_of body ''items'' = Some (PList (xs @ [PDict (example_record (PFloat (Fin 24)))]))
            \<and> docs' = upsert_doc body []"
    by (simp_all add: sel accepted_complete rejected_without_number example_two_errors
          example_two_records del: accepted_records.simps rejection_errors.simps)
  then obtain d0 xs body where
    d0: "initial_doc ?SE ?sd (query_items [] ''u1'') = Inr d0"
    and xs: "map_of d0 ''items'' = Some (PList xs)"
    and body: "map_of body ''items'' = Some (PList (xs @ [PDict (example_record (PFloat (Fin 24)))]))"
    and docs': "docs' = upsert_doc body []"
    by blast
  from d0 have "d0 = example_new_doc []" by (simp add: query_empty initial_doc_new)
  with xs have "xs = []" by (simp add: example_new_doc_def)
  with run res body docs' show ?thesis by simp
qed

subsection \<open>The item count of the stored documents\<close>

lemma upsert_doc_member: "body \<in> set (upsert_doc body docs)"
  by (induction docs) simp_all

lemma upsert_doc_subset: "set (upsert_doc body docs) \<subseteq> insert body (set docs)"
  by (induction docs) auto

lemma append_item_other:
  "append_item doc s = Inr doc' \<Longrightarrow> k \<noteq> ''items'' \<Longrightarrow> map_of doc' k = map_of doc k"
proof -
  assume a: "append_item doc s = Inr doc'" and k: "k \<noteq> ''items''"
  from a obtain v where v: "subscript doc ''items'' = Inr v"
    and d: "(case v of PList xs \<Rightarrow> Inr (AList.update ''items'' (PList (xs @ [PDict s])) doc)
             | _ \<Rightarrow> Inl (no_attribute v ''append'')) = Inr doc'"
    unfolding append_item_def ebind_Inr_iff by blast
  from d k show ?thesis by (cases v) (auto simp: update_conv')
qed

lemma store_loop_other:
  "store_loop B now bn uid idx batch (doc, n, errs) = (doc', n', errs') \<Longrightarrow> k \<noteq> ''items''
     \<Longrightarrow> map_of doc' k = map_of doc k"
proof (induction batch arbitrary: idx doc n errs)
  case Nil
  then show ?case by simp
next
  case (Cons item rest)
  show ?case
  proof (cases "truthy item")
    case False
    with Cons.prems Cons.IH show ?thesis by simp
  next
    case tr: True
    show ?thesis
    proof (cases "ebind (format_storage_item B (now idx) bn item) (\<lambda>storage_item.
                    if validate_storage_item storage_item
                    then ebind (append_item doc storage_item) (\<lambda>d. Inr (Some d))
                    else Inr None)")
      case (Inl e)
      with tr Cons.prems Cons.IH show ?thesis by simp
    next
      case (Inr r)
      show ?thesis
      proof (cases r)
        case None
        with Inr tr Cons.prems Cons.IH show ?thesis by simp
      next
        case (Some d)
        with Inr obtain s where "append_item doc s = Inr d"
          by (auto simp: ebind_Inr_iff split: if_splits)
        from append_item_other [OF this Cons.prems(2)] have "map_of d k = map_of doc k" .
        moreover from Some Inr tr Cons.prems(1)
        have "store_loop B now bn uid (Suc idx) rest (d, Suc n, errs) = (doc', n', errs')"
          by simp
        from Cons.IH [OF this Cons.prems(2)] have "map_of doc' k = map_of d k" .
        ultimately show ?thesis by simp
      qed
    qed
  qed
qed

lemma activity_body:
  assumes run: "store_items_activity SE sd docs = (Inr res, docs', tr)"
  shows "\<exists>body v n. docs' = upsert_doc body docs
           \<and> map_of body ''id'' = Some (PStr (sd_user_id sd))
           \<and> map_of body ''items'' = Some v \<and> py_len v = Inr n
           \<and> map_of body ''itemCount'' = Some (PInt (int n))
           \<and> map_of body ''timestamp'' = Some (PStr (now_meta SE))"
proof -
  from activity_run [OF run] obtain d0 d1 n errs v k where
    d0: "initial_doc SE sd (query_items docs (sd_user_id sd)) = Inr d0"
    and loop: "store_loop (st_interp SE) (now_item SE) (batch_of sd) (sd_user_id sd) 0 (sd_items sd)
                 (d0, 0, []) = (d1, n, errs)"
    and v: "map_of d1 ''items'' = Some v" and k: "py_len v = Inr k"
    and docs': "docs' = upsert_doc (AList.update ''itemCount'' (PInt (int k))
                                 (AList.update ''timestamp'' (PStr (now_meta SE)) d1)) docs"
    by blast
  let ?body = "AList.update ''itemCount'' (PInt (int k))
                 (AList.update ''timestamp'' (PStr (now_meta SE)) d1)"
  from store_loop_other [OF loop, of "''id''"] initial_doc_id [OF d0]
  have "map_of d1 ''id'' = Some (PStr (sd_user_id sd))" by simp
  then have "map_of ?body ''id'' = Some (PStr (sd_user_id sd))" by (simp add: update_conv')
  moreover from v have "map_of ?body ''items'' = Some v" by (simp add: update_conv')
  moreover have "map_of ?body ''itemCount'' = Some (PInt (int k))" by (simp add: update_conv')
  moreover have "map_of ?body ''timestamp'' = Some (PStr (now_meta SE))"
    by (simp add: update_conv')
  ultimately show ?thesis using docs' k by blast
qed

lemma activity_preserves_count:
  assumes docs: "list_all count_consistent docs"
    and run: "store_items_activity SE sd docs = (Inr res, docs', tr)"
  shows "list_all count_consistent docs'"
proof -
  from docs have "list_all has_item_list docs"
    by (auto simp: list_all_iff intro: count_consistent_item_list)
  from activity_run_list [OF this run] obtain d0 xs body where
    docs': "docs' = upsert_doc body docs"
    and body: "body = AList.update ''itemCount''
                        (PInt (int (length (xs @ accepted_records (st_interp SE) (now_item SE)
                                                   (batch_of sd) 0 (sd_items sd)))))
                        (AList.update ''timestamp'' (PStr (now_meta SE))
                           (AList.update ''items''
                              (PList (xs @ accepted_records (st_interp SE) (now_item SE)
                                              (batch_of sd) 0 (sd_items sd))) d0))"
    by blast
  have "count_consistent body"
    unfolding body count_consistent_def by (simp add: update_conv')
  with docs upsert_doc_subset [of body docs] show ?thesis
    unfolding docs' list_all_iff by blast
qed

lemma reachable_count: "reachable docs \<Longrightarrow> list_all count_consistent docs"
proof (induction rule: reachable.induct)
  case empty
  show ?case by simp
next
  case (step docs SE sd res docs' tr)
  from activity_preserves_count [OF step.IH step.hyps(2)] show ?case .
qed

lemma stored_doc_one:
  "AList.update ''itemCount'' (PInt 1)
     (AList.update ''timestamp'' (PStr ''2024-01-01T00:00:02'') (example_new_doc [r]))
   = example_stored_doc [r]"
  by (simp add: example_new_doc_def example_stored_doc_def)

lemma example_run_one:
  "store_items_activity (example_store_env (\<lambda>attempt. None)) (example_storedata [complete_item]) []
     = (Inr [(''status'', PStr ''success''),
             (''batch'', PInt 1),
             (''stored_count'', PInt 1),
             (''total_items'', PInt 1),
             (''errors'', PList []),
             (''user_id'', PStr ''u1'')],
        [example_stored_doc [PDict (example_record (PFloat (Fin 24)))]], [Upsert 0])"
  unfolding store_items_activity_def
  by (simp add: Let_def query_empty
        initial_doc_new [unfolded example_store_env_def example_storedata_def]
        example_store_env_def example_storedata_def store_loop_complete_one
        new_doc_items ebind_def retry_first_success batch_result_def stored_doc_one
        del: store_loop.simps)

text \<open>
  Claim C10. Every run of the activity that returns a result has upserted a document with the
  \<open>id\<close> of the user whose \<open>itemCount\<close> is the length of its \<open>items\<close> and whose \<open>timestamp\<close> is the
  time read after the loop. A run on a container in which every document has a list under
  \<open>items\<close> and its length under \<open>itemCount\<close> leaves such a container, so every document of
  every container that runs of the activity produce from the empty container has an
  \<open>itemCount\<close> equal to the length of its \<open>items\<close>.
\<close>

theorem store_items_activity_item_count:
  "(store_items_activity SE sd docs = (Inr res, docs', tr) \<longrightarrow>
      (\<exists>body v n. docs' = upsert_doc body docs \<and> body \<in> set docs'
          \<and> map_of body ''id'' = Some (PStr (sd_user_id sd))
          \<and> map_of body ''items'' = Some v \<and> py_len v = Inr n
          \<and> map_of body ''itemCount'' = Some (PInt (int n))
          \<and> map_of body ''timestamp'' = Some (PStr (now_meta SE))))
   \<and> (list_all count_consistent docs \<and> store_items_activity SE sd docs = (Inr res, docs', tr)
        \<longrightarrow> list_all count_consistent docs')
   \<and> (reachable docs \<longrightarrow> list_all count_consistent docs)"
proof (intro conjI impI)
  assume run: "store_items_activity SE sd docs = (Inr res, docs', tr)"
  from activity_body [OF run] upsert_doc_member
  show "\<exists>body v n. docs' = upsert_doc body docs \<and> body \<in> set docs'
          \<and> map_of body ''id'' = Some (PStr (sd_user_id sd))
          \<and> map_of body ''items'' = Some v \<and> py_len v = Inr n
          \<and> map_of body ''itemCount'' = Some (PInt (int n))
          \<and> map_of body ''timestamp'' = Some (PStr (now_meta SE))"
    by blast
next
  assume "list_all count_consistent docs \<and> store_items_activity SE sd docs = (Inr res, docs', tr)"
  then show "list_all count_consistent docs'"
    using activity_preserves_count by blast
next
  assume "reachable docs"
  then show "list_all count_consistent docs" by (rule reachable_count)
qed

text \<open>
  Witness of claim C10: the run that stores one complete item in the empty container leaves
  one document, with one record, \<open>itemCount\<close> 1 and the refreshed \<open>timestamp\<close>; the container
  is reachable.
\<close>

theorem store_items_activity_item_count_witness:
  "reachable [example_stored_doc [PDict (example_record (PFloat (Fin 24)))]]
   \<and> count_consistent (example_stored_doc [PDict (example_record (PFloat (Fin 24)))])
   \<and> map_of (example_stored_doc [PDict (example_record (PFloat (Fin 24)))]) ''itemCount''
       = Some (PInt 1)
   \<and> (\<exists>body v n. [example_stored_doc [PDict (example_record (PFloat (Fin 24)))]] = [body]
          \<and> map_of body ''items'' = Some v \<and> py_len v = Inr n
          \<and> map_of body ''itemCount'' = Some (PInt (int n))
          \<and> map_of body ''timestamp'' = Some (PStr ''2024-01-01T00:00:02''))"
proof -
  let ?SE = "example_store_env (\<lambda>attempt. None)"
  let ?sd = "example_storedata [complete_item]"
  let ?doc = "example_stored_doc [PDict (example_record (PFloat (Fin 24)))]"
  let ?res = "[(''status'', PStr ''success''), (''batch'', PInt 1), (''stored_count'', PInt 1),
               (''total_items'', PInt 1), (''errors'', PList []), (''user_id'', PStr ''u1'')]"
  have r: "reachable [?doc]"
    by (rule reachable.step [OF reachable.empty example_run_one])
  from store_items_activity_item_count [of ?SE ?sd "[]" ?res "[?doc]" "[Upsert 0]"] example_run_one
  have a: "\<exists>body v n. [?doc] = [body]
          \<and> map_of body ''items'' = Some v \<and> py_len v = Inr n
          \<and> map_of body ''itemCount'' = Some (PInt (int n))
          \<and> map_of body ''timestamp'' = Some (PStr ''2024-01-01T00:00:02'')"
    and b: "list_all count_consistent [?doc]"
    by (simp_all add: example_store_env_def)
  from store_items_activity_item_count [of _ _ "[?doc]"] r
  have c: "list_all count_consistent [?doc]" by blast
  have d: "map_of ?doc ''itemCount'' = Some (PInt 1)" by (simp add: example_stored_doc_def)
  from r a c d show ?thesis by simp
qed

end
